theory Spec2Isabelle
  imports Complex_Main "HOL-Library.Sublist"
begin

section \<open>Data model of the instance manager (whatsmeow/internal/whatsapp/client.go)\<close>

text \<open>
  The Go package keeps every WhatsApp connection in one \<open>Manager\<close>. Its maps are modelled
  as partial functions, a Go error as a value of \<open>error\<close>, and the objects that the code
  reaches through pointers (\<open>*Instance\<close>, \<open>chan Event\<close>) live in explicit stores indexed
  by addresses, so that a handle kept by a caller or by an event-handler closure keeps
  naming the same object after the registry map has changed.
\<close>

datatype error = GoError string | GoPanic string

record MessageData =
  msg_ID :: string
  msg_From :: string
  msg_To :: string
  msg_Body :: string
  msg_Type :: string
  msg_Timestamp :: int
  msg_FromMe :: bool
  msg_IsGroup :: bool
  msg_PushName :: string
  msg_ResolvedPhone :: string
  msg_MediaBase64 :: string
  msg_Mimetype :: string
  msg_Caption :: string
  msg_FileName :: string

text \<open>\<open>Event.Data\<close> is an \<open>interface{}\<close>; the payloads built by the modelled code are
  \<open>nil\<close>, a \<open>map[string]string\<close> literal and a \<open>MessageData\<close>.\<close>

datatype event_data =
    DataNil
  | DataStrings "(string \<times> string) list"
  | DataMessage MessageData

record Event =
  evt_Type :: string
  evt_InstanceID :: string
  evt_Data :: event_data
  evt_Timestamp :: int

record Instance =
  ID :: string
  Client :: nat
  Device :: nat
  Status :: string
  QRCode :: string
  QRCodeBase64 :: string
  PairingCode :: string
  WANumber :: string
  WAName :: string
  RejectCalls :: bool
  AlwaysOnline :: bool
  IgnoreGroups :: bool
  SyncHistory :: bool
  ReadMessages :: bool
  ProxyHost :: string
  ProxyPort :: string
  ProxyUsername :: string
  ProxyPassword :: string
  ProxyProtocol :: string

text \<open>A buffered Go channel: its buffer, its capacity and whether \<open>close\<close> was called on it.\<close>

record Chan =
  queue :: "Event list"
  capacity :: nat
  is_closed :: bool

text \<open>
  The \<open>Manager\<close> struct. \<open>instances\<close> maps an id to the address of its \<open>Instance\<close>,
  \<open>eventSubs\<close> maps an id to the addresses of its subscriber channels. \<open>inst_heap\<close> and
  \<open>chan_heap\<close> are the stores of the objects (memory: every address holds a value, the
  zero value until something is allocated there), \<open>next_inst\<close> and \<open>next_chan\<close> the
  next unused addresses. The mutexes and the fields \<open>container\<close>, \<open>dataDir\<close> and
  \<open>mappingFile\<close> belong to the environment and are not part of the state.
\<close>

record Manager =
  instances :: "string \<rightharpoonup> nat"
  mapping :: "string \<rightharpoonup> string"
  eventSubs :: "string \<rightharpoonup> nat list"
  messages :: "string \<rightharpoonup> (string \<rightharpoonup> MessageData list)"
  inst_heap :: "nat \<Rightarrow> Instance"
  chan_heap :: "nat \<Rightarrow> Chan"
  next_inst :: nat
  next_chan :: nat

text \<open>Go zero values of the two object types.\<close>

definition zero_Instance :: Instance where
  "zero_Instance =
     \<lparr> ID = [], Client = 0, Device = 0, Status = [], QRCode = [], QRCodeBase64 = [],
       PairingCode = [], WANumber = [], WAName = [], RejectCalls = False,
       AlwaysOnline = False, IgnoreGroups = False, SyncHistory = False,
       ReadMessages = False, ProxyHost = [], ProxyPort = [], ProxyUsername = [],
       ProxyPassword = [], ProxyProtocol = [] \<rparr>"

definition zero_Chan :: Chan where
  "zero_Chan = \<lparr> queue = [], capacity = 0, is_closed = False \<rparr>"

text \<open>The struct literal of \<open>NewManager\<close>, before the mapping file is loaded.\<close>

definition empty_Manager :: Manager where
  "empty_Manager =
     \<lparr> instances = Map.empty, mapping = Map.empty, eventSubs = Map.empty,
       messages = Map.empty, inst_heap = (\<lambda>_. zero_Instance), chan_heap = (\<lambda>_. zero_Chan),
       next_inst = 0, next_chan = 0 \<rparr>"


section \<open>Message cache\<close>

text \<open>
  \<open>storeMessage\<close>: create the per-instance map when it is \<open>nil\<close>, append to the chat's
  slice (a missing key reads as the \<open>nil\<close> slice) and keep the last 500 entries.
\<close>

definition storeMessage :: "Manager \<Rightarrow> string \<Rightarrow> string \<Rightarrow> MessageData \<Rightarrow> Manager" where
  "storeMessage m instanceID chatID msg =
     (let per_inst = (case messages m instanceID of None \<Rightarrow> Map.empty | Some cm \<Rightarrow> cm);
          msgs = (case per_inst chatID of None \<Rightarrow> [] | Some l \<Rightarrow> l);
          msgs1 = msgs @ [msg];
          msgs2 = (if length msgs1 > 500 then drop (length msgs1 - 500) msgs1 else msgs1)
      in m\<lparr>messages := (messages m)(instanceID \<mapsto> per_inst(chatID \<mapsto> msgs2))\<rparr>)"

text \<open>
  \<open>GetChatMessages\<close>: \<open>limit\<close> is a Go \<open>int\<close>; the only arithmetic on it is
  \<open>len(msgs)-limit\<close> under \<open>0 < limit < len(msgs)\<close>, so no wrap-around can occur.
  The returned error is always \<open>nil\<close>.
\<close>

definition GetChatMessages :: "Manager \<Rightarrow> string \<Rightarrow> string \<Rightarrow> int \<Rightarrow> error + MessageData list" where
  "GetChatMessages m instanceID chatID limit =
     (case messages m instanceID of
        None \<Rightarrow> Inr []
      | Some cm \<Rightarrow>
          (case cm chatID of
             None \<Rightarrow> Inr []
           | Some msgs \<Rightarrow>
               if limit > 0 \<and> int (length msgs) > limit
               then Inr (drop (nat (int (length msgs) - limit)) msgs)
               else Inr msgs))"

text \<open>The slice held for a key, read as Go reads a missing key: the empty slice.\<close>

definition stored :: "Manager \<Rightarrow> string \<Rightarrow> string \<Rightarrow> MessageData list" where
  "stored m instanceID chatID =
     (case messages m instanceID of
        None \<Rightarrow> []
      | Some cm \<Rightarrow> (case cm chatID of None \<Rightarrow> [] | Some l \<Rightarrow> l))"

text \<open>A sequence of \<open>storeMessage\<close> calls, each with its own key, run in order.\<close>

fun storeMessages :: "Manager \<Rightarrow> (string \<times> string \<times> MessageData) list \<Rightarrow> Manager" where
  "storeMessages m [] = m"
| "storeMessages m ((i, c, x) # calls) = storeMessages (storeMessage m i c x) calls"

text \<open>The messages a call sequence addressed to one key, in arrival order.\<close>

fun arrivals :: "string \<Rightarrow> string \<Rightarrow> (string \<times> string \<times> MessageData) list \<Rightarrow> MessageData list" where
  "arrivals i c [] = []"
| "arrivals i c ((i', c', x) # calls) =
     (if i' = i \<and> c' = c then x # arrivals i c calls else arrivals i c calls)"

definition last_n :: "nat \<Rightarrow> 'a list \<Rightarrow> 'a list" where
  "last_n n xs = drop (length xs - n) xs"


section \<open>Event bus\<close>

text \<open>Reading \<open>m.eventSubs[id]\<close>: a missing key is the \<open>nil\<close> slice.\<close>

definition subs_of :: "Manager \<Rightarrow> string \<Rightarrow> nat list" where
  "subs_of m instanceID = (case eventSubs m instanceID of None \<Rightarrow> [] | Some l \<Rightarrow> l)"

text \<open>\<open>Subscribe\<close>: \<open>make(chan Event, 100)\<close> at a fresh address, appended to the id's list.\<close>

definition Subscribe :: "Manager \<Rightarrow> string \<Rightarrow> nat \<times> Manager" where
  "Subscribe m instanceID =
     (let ch = next_chan m
      in (ch, m\<lparr> chan_heap := (chan_heap m)(ch := \<lparr> queue = [], capacity = 100, is_closed = False \<rparr>),
                 eventSubs := (eventSubs m)(instanceID \<mapsto> subs_of m instanceID @ [ch]),
                 next_chan := Suc ch \<rparr>))"

text \<open>The index of the first element equal to \<open>ch\<close>, as the \<open>range\<close> loop with
  \<open>break\<close> finds it.\<close>

fun first_index :: "nat \<Rightarrow> nat list \<Rightarrow> nat option" where
  "first_index ch [] = None"
| "first_index ch (sub # subs) =
     (if sub = ch then Some 0
      else (case first_index ch subs of None \<Rightarrow> None | Some i \<Rightarrow> Some (Suc i)))"

text \<open>\<open>close(ch)\<close> panics on a channel that is already closed.\<close>

definition close_chan :: "Manager \<Rightarrow> nat \<Rightarrow> error + Manager" where
  "close_chan m ch =
     (if is_closed (chan_heap m ch) then Inl (GoPanic ''close of closed channel'')
      else Inr (m\<lparr> chan_heap := (chan_heap m)(ch := (chan_heap m ch)\<lparr> is_closed := True \<rparr>) \<rparr>))"

definition Unsubscribe :: "Manager \<Rightarrow> string \<Rightarrow> nat \<Rightarrow> error + Manager" where
  "Unsubscribe m instanceID ch =
     (let subs = subs_of m instanceID
      in case first_index ch subs of
           None \<Rightarrow> Inr m
         | Some i \<Rightarrow>
             close_chan (m\<lparr> eventSubs := (eventSubs m)(instanceID \<mapsto> take i subs @ drop (Suc i) subs) \<rparr>) ch)"

text \<open>
  The loop of \<open>publishEvent\<close>: a \<open>select\<close> with a \<open>default\<close> branch sends when the
  buffer has room and otherwise skips the channel. A send on a closed channel panics,
  also inside \<open>select\<close>.
\<close>

fun send_all :: "Manager \<Rightarrow> Event \<Rightarrow> nat list \<Rightarrow> error + Manager" where
  "send_all m evt [] = Inr m"
| "send_all m evt (ch # chs) =
     (let c = chan_heap m ch
      in if is_closed c then Inl (GoPanic ''send on closed channel'')
         else if length (queue c) < capacity c
         then send_all (m\<lparr> chan_heap := (chan_heap m)(ch := c\<lparr> queue := queue c @ [evt] \<rparr>) \<rparr>) evt chs
         else send_all m evt chs)"

text \<open>\<open>now\<close> is the value of \<open>time.Now().Unix()\<close>.\<close>

definition stamp :: "int \<Rightarrow> Event \<Rightarrow> Event" where
  "stamp now evt = (if evt_Timestamp evt = 0 then evt\<lparr> evt_Timestamp := now \<rparr> else evt)"

text \<open>
  \<open>publishEvent\<close> has two parts. The first stamps the event and reads
  \<open>m.eventSubs[evt.InstanceID]\<close> under \<open>eventSubsMu.RLock()\<close>; the lock is released
  there. The second is the send loop over the slice that was read, run without the lock.
  \<open>publishEvent\<close> itself is the call that no other goroutine interrupts: the loop runs
  in the state in which the slice was read. \<open>Subscribe\<close> and \<open>Unsubscribe\<close> hold
  \<open>eventSubsMu.Lock()\<close> from start to end, so another goroutine can run either of them
  between the two parts, and the loop then runs in the state they leave.
\<close>

definition publish_read :: "int \<Rightarrow> Manager \<Rightarrow> Event \<Rightarrow> Event \<times> nat list" where
  "publish_read now m evt =
     (let evt1 = stamp now evt
      in (evt1, subs_of m (evt_InstanceID evt1)))"

definition publishEvent :: "int \<Rightarrow> Manager \<Rightarrow> Event \<Rightarrow> error + Manager" where
  "publishEvent now m evt =
     (case publish_read now m evt of (evt1, subs) \<Rightarrow> send_all m evt1 subs)"

text \<open>
  \<open>subs_open\<close>: the channels registered for an id are pairwise different and none of
  them is closed. \<open>bus_ok\<close> is the invariant that each of \<open>Subscribe\<close>,
  \<open>Unsubscribe\<close> and an uninterrupted \<open>publishEvent\<close> keeps: registered channels are
  allocated, open, have capacity 100 and are registered once, under one id.
\<close>

definition subs_open :: "Manager \<Rightarrow> string \<Rightarrow> bool" where
  "subs_open m instanceID =
     (distinct (subs_of m instanceID)
      \<and> list_all (\<lambda>ch. \<not> is_closed (chan_heap m ch)) (subs_of m instanceID))"

definition bus_ok :: "Manager \<Rightarrow> bool" where
  "bus_ok m =
     (\<forall>i. distinct (subs_of m i)
        \<and> (\<forall>ch \<in> set (subs_of m i).
              ch < next_chan m \<and> \<not> is_closed (chan_heap m ch) \<and> capacity (chan_heap m ch) = 100
              \<and> (\<forall>j. j \<noteq> i \<longrightarrow> ch \<notin> set (subs_of m j))))"


section \<open>The protocol library, seen from the manager\<close>

text \<open>
  The whatsmeow library, the device store, the file system and the clock are outside the
  program. Clients and devices are handles (addresses of library objects). \<open>Lib\<close> holds
  what the outside answers during one operation of the manager; \<open>lib_call\<close> is what the
  manager asks of it, and every operation returns the list of its calls in order.
\<close>

record JID =
  jid_User :: string
  jid_Server :: string

definition EmptyJID :: JID where
  "EmptyJID = \<lparr> jid_User = [], jid_Server = [] \<rparr>"

record IsOnWhatsAppResponse =
  resp_JID :: JID
  resp_IsIn :: bool

record UploadResponse =
  up_URL :: string
  up_DirectPath :: string
  up_MediaKey :: string
  up_FileEncSHA256 :: string
  up_FileSHA256 :: string

record LinkPreview =
  lp_Title :: string
  lp_Description :: string
  lp_Thumbnail :: string

text \<open>The protobuf messages the send operations build. The messages made by the library's
  builders (\<open>BuildPollCreation\<close>, \<open>BuildEdit\<close>, \<open>BuildReaction\<close>, \<open>BuildRevoke\<close>) are
  kept as the builder's arguments. Latitude and longitude are passed through untouched.\<close>

datatype chat_presence = ChatPresenceComposing | ChatPresencePaused

datatype chat_presence_media = ChatPresenceMediaText | ChatPresenceMediaAudio

datatype media_type = MediaImage | MediaVideo | MediaAudio | MediaDocument

datatype wa_message =
    Conversation string
  | ExtendedTextMessage string string "string option" "string option" "string option"
  | ImageMessage string UploadResponse string nat
  | VideoMessage string UploadResponse string nat
  | AudioMessage UploadResponse string nat
  | DocumentMessage string UploadResponse string nat string
  | LocationMessage real real string string
  | PollCreation string "string list" int
  | EditOf JID string wa_message
  | ReactionTo JID JID string string
  | RevokeOf JID JID string

datatype lib_call =
    CallGetDevice JID
  | CallNewDevice
  | CallSetDevicePlatform nat string string
  | CallNewClient nat
  | CallAddEventHandler nat nat
  | CallConnect nat
  | CallDisconnect nat
  | CallLogout nat
  | CallIsConnected nat
  | CallSleep nat
  | CallPairPhone nat string
  | CallWriteMappingFile "string \<rightharpoonup> string"
  | CallIsOnWhatsApp nat "string list"
  | CallGetUserDevices nat "JID list"
  | CallUpload nat string media_type
  | CallSendMessage nat JID wa_message
  | CallSendChatPresence nat JID chat_presence chat_presence_media
  | CallHttpGet string
  | CallGo "lib_call list"

text \<open>Whether a call is the request for a pairing code.\<close>

fun is_PairPhone :: "lib_call \<Rightarrow> bool" where
  "is_PairPhone (CallPairPhone client phone) = True"
| "is_PairPhone _ = False"

record Lib =
  lib_Now :: int
  lib_ParseJID :: "string \<Rightarrow> JID \<times> string option"
  lib_JIDString :: "JID \<Rightarrow> string"
  lib_GetDevice :: "JID \<Rightarrow> string + nat option"
  lib_NewDevice :: nat
  lib_NewClient :: "nat \<Rightarrow> nat"
  lib_StoreID :: "nat \<Rightarrow> JID option"
  lib_StorePushName :: "nat \<Rightarrow> string"
  lib_Connect :: "nat \<Rightarrow> string option"
  lib_Logout :: "nat \<Rightarrow> string option"
  lib_IsConnected_before :: "nat \<Rightarrow> bool"
  lib_IsConnected_after :: "nat \<Rightarrow> bool"
  lib_PairPhone :: "nat \<Rightarrow> string \<Rightarrow> string + string"
  lib_QRPngBase64 :: "string \<Rightarrow> string option"
  lib_IsOnWhatsApp :: "nat \<Rightarrow> string list \<Rightarrow> string + IsOnWhatsAppResponse list"
  lib_Upload :: "nat \<Rightarrow> string \<Rightarrow> media_type \<Rightarrow> string + UploadResponse"
  lib_SendMessage :: "nat \<Rightarrow> JID \<Rightarrow> wa_message \<Rightarrow> string + string"
  lib_SendChatPresence :: "nat \<Rightarrow> JID \<Rightarrow> chat_presence \<Rightarrow> chat_presence_media \<Rightarrow> string option"
  lib_extractFirstURL :: "string \<Rightarrow> string"
  lib_fetchLinkPreview :: "string \<Rightarrow> string + LinkPreview"
  lib_NewRequest :: "string \<Rightarrow> string option"
  lib_HttpGet :: "string \<Rightarrow> string + (nat \<times> (string + string))"
  lib_Base64Decode :: "string \<Rightarrow> string + string"
  lib_DetectContentType :: "string \<Rightarrow> string"


section \<open>Go string helpers\<close>

definition HasPrefix :: "string \<Rightarrow> string \<Rightarrow> bool" where
  "HasPrefix s p = (take (length p) s = p)"

definition TrimPrefix :: "string \<Rightarrow> string \<Rightarrow> string" where
  "TrimPrefix s p = (if HasPrefix s p then drop (length p) s else s)"

definition HasSuffix :: "string \<Rightarrow> string \<Rightarrow> bool" where
  "HasSuffix s p = (length p \<le> length s \<and> drop (length s - length p) s = p)"

definition TrimSuffix :: "string \<Rightarrow> string \<Rightarrow> string" where
  "TrimSuffix s p = (if HasSuffix s p then take (length s - length p) s else s)"

fun Contains :: "string \<Rightarrow> string \<Rightarrow> bool" where
  "Contains [] sub = (sub = [])"
| "Contains (x # xs) sub = (HasPrefix (x # xs) sub \<or> Contains xs sub)"

text \<open>\<open>strings.ReplaceAll(s, old, "")\<close> for a one-byte \<open>old\<close>.\<close>

definition RemoveAll :: "string \<Rightarrow> char \<Rightarrow> string" where
  "RemoveAll s c = filter (\<lambda>x. x \<noteq> c) s"

text \<open>\<open>strings.SplitN(s, sep, 2)\<close> for a one-byte \<open>sep\<close>.\<close>

definition SplitN2 :: "string \<Rightarrow> char \<Rightarrow> string list" where
  "SplitN2 s sep =
     (if sep \<in> set s
      then [takeWhile (\<lambda>x. x \<noteq> sep) s, drop 1 (dropWhile (\<lambda>x. x \<noteq> sep) s)]
      else [s])"


section \<open>Instance registry: creation and lifecycle\<close>

definition upd_inst :: "Manager \<Rightarrow> nat \<Rightarrow> (Instance \<Rightarrow> Instance) \<Rightarrow> Manager" where
  "upd_inst m p f = m\<lparr> inst_heap := (inst_heap m)(p := f (inst_heap m p)) \<rparr>"

text \<open>The literal \<open>&Instance{ID: ..., Client: ..., Device: ..., Status: "disconnected"}\<close>.\<close>

definition new_Instance :: "string \<Rightarrow> nat \<Rightarrow> nat \<Rightarrow> Instance" where
  "new_Instance instanceID client device =
     zero_Instance\<lparr> ID := instanceID, Client := client, Device := device,
                    Status := ''disconnected'' \<rparr>"

text \<open>Allocation of the instance and \<open>m.instances[instanceID] = instance\<close>.\<close>

definition register_instance :: "Manager \<Rightarrow> string \<Rightarrow> Instance \<Rightarrow> nat \<times> Manager" where
  "register_instance m instanceID inst =
     (let p = next_inst m
      in (p, m\<lparr> inst_heap := (inst_heap m)(p := inst),
                instances := (instances m)(instanceID \<mapsto> p),
                next_inst := Suc p \<rparr>))"

text \<open>The tail of \<open>GetOrCreateInstance\<close>: a new device with the Safari identity, a client
  on it, the event handler, the registration. \<open>calls\<close> are the calls made before.\<close>

definition create_new ::
  "Lib \<Rightarrow> Manager \<Rightarrow> string \<Rightarrow> lib_call list \<Rightarrow> (error + nat) \<times> Manager \<times> lib_call list" where
  "create_new lib m instanceID calls =
     (let device = lib_NewDevice lib;
          client = lib_NewClient lib device;
          (p, m1) = register_instance m instanceID (new_Instance instanceID client device)
      in (Inr p, m1,
          calls @ [CallNewDevice, CallSetDevicePlatform device ''Mac OS X'' ''Safari'',
                   CallNewClient device, CallAddEventHandler client p]))"

definition GetOrCreateInstance ::
  "Lib \<Rightarrow> Manager \<Rightarrow> string \<Rightarrow> (error + nat) \<times> Manager \<times> lib_call list" where
  "GetOrCreateInstance lib m instanceID =
     (case instances m instanceID of
        Some p \<Rightarrow> (Inr p, m, [])
      | None \<Rightarrow>
          (case mapping m instanceID of
             Some jidStr \<Rightarrow>
               (let jid = fst (lib_ParseJID lib jidStr)
                in case lib_GetDevice lib jid of
                     Inr (Some device) \<Rightarrow>
                       (let client = lib_NewClient lib device;
                            (p, m1) = register_instance m instanceID
                                        (new_Instance instanceID client device)
                        in (Inr p, m1,
                            [CallGetDevice jid, CallNewClient device, CallAddEventHandler client p]))
                   | Inr None \<Rightarrow> create_new lib m instanceID [CallGetDevice jid]
                   | Inl err \<Rightarrow> create_new lib m instanceID [CallGetDevice jid])
           | None \<Rightarrow> create_new lib m instanceID []))"

definition GetInstance :: "Manager \<Rightarrow> string \<Rightarrow> nat option" where
  "GetInstance m instanceID = instances m instanceID"

text \<open>
  \<open>Connect\<close>. Both branches of the test on \<open>inst.Client.Store.ID\<close> do the same in the
  source. The status that the library's callbacks set after a successful connect is the
  work of the event handler below, not of this function.
\<close>

definition Connect ::
  "Lib \<Rightarrow> Manager \<Rightarrow> string \<Rightarrow> (error + nat) \<times> Manager \<times> lib_call list" where
  "Connect lib m instanceID =
     (case GetOrCreateInstance lib m instanceID of
        (Inl e, m1, c1) \<Rightarrow> (Inl e, m1, c1)
      | (Inr p, m1, c1) \<Rightarrow>
          (let currentStatus = Status (inst_heap m1 p)
           in if currentStatus = ''connected'' then (Inr p, m1, c1)
              else
                (let m2 = upd_inst m1 p (\<lambda>i. i\<lparr> Status := ''connecting'' \<rparr>);
                     client = Client (inst_heap m2 p)
                 in if lib_StoreID lib client \<noteq> None
                    then (case lib_Connect lib client of
                            Some err \<Rightarrow>
                              (Inl (GoError (''failed to connect: '' @ err)),
                               upd_inst m2 p (\<lambda>i. i\<lparr> Status := ''disconnected'' \<rparr>),
                               c1 @ [CallConnect client])
                          | None \<Rightarrow> (Inr p, m2, c1 @ [CallConnect client]))
                    else (case lib_Connect lib client of
                            Some err \<Rightarrow>
                              (Inl (GoError (''failed to connect: '' @ err)),
                               upd_inst m2 p (\<lambda>i. i\<lparr> Status := ''disconnected'' \<rparr>),
                               c1 @ [CallConnect client])
                          | None \<Rightarrow> (Inr p, m2, c1 @ [CallConnect client])))))"

text \<open>The part of \<open>ConnectWithPairingCode\<close> after the transport was asked to connect:
  the two-second sleep, the liveness test, the request for the code, its formatting as
  \<open>XXXX-XXXX\<close>, the \<open>pairing_code\<close> event.\<close>

definition request_pairing_code ::
  "Lib \<Rightarrow> Manager \<Rightarrow> string \<Rightarrow> nat \<Rightarrow> string \<Rightarrow> lib_call list
     \<Rightarrow> (error + string) \<times> Manager \<times> lib_call list" where
  "request_pairing_code lib m instanceID p phoneNumber calls =
     (let client = Client (inst_heap m p);
          calls1 = calls @ [CallSleep 2000, CallIsConnected client]
      in if \<not> lib_IsConnected_after lib client
         then (Inl (GoError ''failed to establish connection to WhatsApp servers''),
               upd_inst m p (\<lambda>i. i\<lparr> Status := ''disconnected'' \<rparr>), calls1)
         else
           (case lib_PairPhone lib client phoneNumber of
              Inl err \<Rightarrow>
                (Inl (GoError (''failed to get pairing code: '' @ err)),
                 upd_inst m p (\<lambda>i. i\<lparr> Status := ''disconnected'' \<rparr>),
                 calls1 @ [CallPairPhone client phoneNumber])
            | Inr code \<Rightarrow>
                (let formattedCode =
                       (if length code = 8 then take 4 code @ ''-'' @ drop 4 code else code);
                     m1 = upd_inst m p (\<lambda>i. i\<lparr> PairingCode := formattedCode \<rparr>);
                     calls2 = calls1 @ [CallPairPhone client phoneNumber]
                 in case publishEvent (lib_Now lib) m1
                           \<lparr> evt_Type = ''pairing_code'', evt_InstanceID = instanceID,
                             evt_Data = DataStrings [(''code'', formattedCode)],
                             evt_Timestamp = 0 \<rparr> of
                      Inl e \<Rightarrow> (Inl e, m1, calls2)
                    | Inr m2 \<Rightarrow> (Inr formattedCode, m2, calls2))))"

definition ConnectWithPairingCode ::
  "Lib \<Rightarrow> Manager \<Rightarrow> string \<Rightarrow> string \<Rightarrow> (error + string) \<times> Manager \<times> lib_call list" where
  "ConnectWithPairingCode lib m instanceID phoneNumber =
     (case GetOrCreateInstance lib m instanceID of
        (Inl e, m1, c1) \<Rightarrow> (Inl e, m1, c1)
      | (Inr p, m1, c1) \<Rightarrow>
          (let currentStatus = Status (inst_heap m1 p);
               client = Client (inst_heap m1 p)
           in if currentStatus = ''connected'' then (Inl (GoError ''already connected''), m1, c1)
              else if lib_StoreID lib client \<noteq> None
              then (Inl (GoError ''already has a session, use QR code or disconnect first''),
                    m1, c1)
              else
                (let phone = RemoveAll (RemoveAll (TrimPrefix phoneNumber ''+'') CHR '' '') CHR ''-'';
                     m2 = upd_inst m1 p (\<lambda>i. i\<lparr> Status := ''pairing'' \<rparr>)
                 in if \<not> lib_IsConnected_before lib client
                    then (case lib_Connect lib client of
                            Some err \<Rightarrow>
                              (Inl (GoError (''failed to connect: '' @ err)),
                               upd_inst m2 p (\<lambda>i. i\<lparr> Status := ''disconnected'' \<rparr>),
                               c1 @ [CallIsConnected client, CallConnect client])
                          | None \<Rightarrow>
                              request_pairing_code lib m2 instanceID p phone
                                (c1 @ [CallIsConnected client, CallConnect client]))
                    else request_pairing_code lib m2 instanceID p phone
                           (c1 @ [CallIsConnected client]))))"

definition Disconnect :: "Manager \<Rightarrow> string \<Rightarrow> (error + unit) \<times> Manager \<times> lib_call list" where
  "Disconnect m instanceID =
     (case instances m instanceID of
        None \<Rightarrow> (Inl (GoError (''instance '' @ instanceID @ '' not found'')), m, [])
      | Some p \<Rightarrow>
          (Inr (), upd_inst m p (\<lambda>i. i\<lparr> Status := ''disconnected'' \<rparr>),
           [CallDisconnect (Client (inst_heap m p))]))"

definition Logout :: "Lib \<Rightarrow> Manager \<Rightarrow> string \<Rightarrow> (error + unit) \<times> Manager \<times> lib_call list" where
  "Logout lib m instanceID =
     (case instances m instanceID of
        None \<Rightarrow> (Inl (GoError (''instance '' @ instanceID @ '' not found'')), m, [])
      | Some p \<Rightarrow>
          (let client = Client (inst_heap m p)
           in case lib_Logout lib client of
                Some err \<Rightarrow> (Inl (GoError (''failed to logout: '' @ err)), m, [CallLogout client])
              | None \<Rightarrow>
                  (Inr (), m\<lparr> instances := (instances m)(instanceID := None) \<rparr>,
                   [CallLogout client, CallDisconnect client])))"


section \<open>Instance state machine: the handler of library events\<close>

text \<open>
  The closure that \<open>setupEventHandlers\<close> registers holds the address \<open>p\<close> of its instance.
  The cases that write fields of the instance are modelled: \<open>QR\<close>, \<open>PairSuccess\<close>,
  \<open>Connected\<close>, \<open>Disconnected\<close>, \<open>LoggedOut\<close>. (\<open>Message\<close>, \<open>HistorySync\<close>,
  \<open>Receipt\<close> and \<open>CallOffer\<close> read settings, fill the message cache and publish; they
  write no field of the instance.)
\<close>

datatype wa_event =
    EvQR "string list"
  | EvPairSuccess JID
  | EvConnected
  | EvDisconnected
  | EvLoggedOut

definition publish_from_handler ::
  "Lib \<Rightarrow> Manager \<Rightarrow> Event \<Rightarrow> (error + unit) \<times> Manager \<times> lib_call list" where
  "publish_from_handler lib m evt =
     (case publishEvent (lib_Now lib) m evt of
        Inl e \<Rightarrow> (Inl e, m, [])
      | Inr m1 \<Rightarrow> (Inr (), m1, []))"

fun handleEvent ::
  "Lib \<Rightarrow> Manager \<Rightarrow> nat \<Rightarrow> wa_event \<Rightarrow> (error + unit) \<times> Manager \<times> lib_call list" where
  "handleEvent lib m p (EvQR codes) =
     (case codes of
        [] \<Rightarrow> (Inl (GoPanic ''index out of range''), m, [])
      | qrCode # _ \<Rightarrow>
          (let m1 = upd_inst m p (\<lambda>i. i\<lparr> Status := ''qr'', QRCode := qrCode \<rparr>);
               m2 = (case lib_QRPngBase64 lib qrCode of
                       Some png \<Rightarrow>
                         upd_inst m1 p (\<lambda>i. i\<lparr> QRCodeBase64 := ''data:image/png;base64,'' @ png \<rparr>)
                     | None \<Rightarrow> m1)
           in publish_from_handler lib m2
                \<lparr> evt_Type = ''qr'', evt_InstanceID = ID (inst_heap m2 p),
                  evt_Data = DataStrings [(''qr'', qrCode),
                                          (''qrBase64'', QRCodeBase64 (inst_heap m2 p))],
                  evt_Timestamp = 0 \<rparr>))"
| "handleEvent lib m p (EvPairSuccess jid) =
     (let m1 = upd_inst m p (\<lambda>i. i\<lparr> WANumber := jid_User jid \<rparr>);
          m2 = m1\<lparr> mapping := (mapping m1)(ID (inst_heap m1 p) \<mapsto> lib_JIDString lib jid) \<rparr>
      in (Inr (), m2, [CallWriteMappingFile (mapping m2)]))"
| "handleEvent lib m p EvConnected =
     (let client = Client (inst_heap m p);
          m1 = upd_inst m p (\<lambda>i. i\<lparr> Status := ''connected'', QRCode := [], QRCodeBase64 := [] \<rparr>);
          m2 = (case lib_StoreID lib client of
                  Some jid \<Rightarrow> upd_inst m1 p (\<lambda>i. i\<lparr> WANumber := jid_User jid \<rparr>)
                | None \<Rightarrow> m1);
          m3 = upd_inst m2 p (\<lambda>i. i\<lparr> WAName := lib_StorePushName lib client \<rparr>)
      in publish_from_handler lib m3
           \<lparr> evt_Type = ''ready'', evt_InstanceID = ID (inst_heap m3 p),
             evt_Data = DataStrings [(''number'', WANumber (inst_heap m3 p)),
                                     (''name'', WAName (inst_heap m3 p))],
             evt_Timestamp = 0 \<rparr>)"
| "handleEvent lib m p EvDisconnected =
     (let m1 = upd_inst m p (\<lambda>i. i\<lparr> Status := ''disconnected'' \<rparr>)
      in publish_from_handler lib m1
           \<lparr> evt_Type = ''disconnected'', evt_InstanceID = ID (inst_heap m1 p),
             evt_Data = DataNil, evt_Timestamp = 0 \<rparr>)"
| "handleEvent lib m p EvLoggedOut =
     (let m1 = upd_inst m p (\<lambda>i. i\<lparr> Status := ''disconnected'', WANumber := [], WAName := [] \<rparr>)
      in publish_from_handler lib m1
           \<lparr> evt_Type = ''logged_out'', evt_InstanceID = ID (inst_heap m1 p),
             evt_Data = DataNil, evt_Timestamp = 0 \<rparr>)"


section \<open>Outbound message operations\<close>

text \<open>
  The send operations read the registry and talk to the library; they write no field of
  the manager, so each returns its result and its calls. A goroutine started with \<open>go\<close>
  is recorded as \<open>CallGo\<close> with the calls it makes.
\<close>

text \<open>Decimal digits of a number, for \<open>%d\<close>.\<close>

fun show_nat :: "nat \<Rightarrow> string" where
  "show_nat n =
     (if n < 10 then [char_of (48 + n)]
      else show_nat (n div 10) @ [char_of (48 + n mod 10)])"

text \<open>The cleaning of a recipient that location, poll, edit, react and delete share:
  drop a leading \<open>+\<close>, all spaces and dashes, and add the user server when no \<open>@\<close> is
  there.\<close>

definition clean_chat_id :: "string \<Rightarrow> string" where
  "clean_chat_id to =
     (let t = RemoveAll (RemoveAll (TrimPrefix to ''+'') CHR '' '') CHR ''-''
      in if \<not> Contains t ''@'' then t @ ''@s.whatsapp.net'' else t)"

definition SendTextMessage ::
  "Lib \<Rightarrow> Manager \<Rightarrow> string \<Rightarrow> string \<Rightarrow> string \<Rightarrow> (error + string) \<times> lib_call list" where
  "SendTextMessage lib m instanceID to text =
     (case GetInstance m instanceID of
        None \<Rightarrow> (Inl (GoError (''instance '' @ instanceID @ '' not found'')), [])
      | Some p \<Rightarrow>
          (let status = Status (inst_heap m p);
               client = Client (inst_heap m p)
           in if status \<noteq> ''connected''
              then (Inl (GoError (''instance not connected (status: '' @ status @ '')'')), [])
              else
                (let to1 = TrimPrefix to ''+'';
                     c1 = [CallIsOnWhatsApp client [to1]]
                 in case lib_IsOnWhatsApp lib client [to1] of
                      Inl err \<Rightarrow>
                        (Inl (GoError (''failed to check if user is on WhatsApp: '' @ err)), c1)
                    | Inr [] \<Rightarrow> (Inl (GoError (''user '' @ to1 @ '' not on WhatsApp'')), c1)
                    | Inr (u # _) \<Rightarrow>
                        if jid_User (resp_JID u) = []
                        then (Inl (GoError (''received empty JID for user '' @ to1)), c1)
                        else
                          (let jid = resp_JID u;
                               foundURL = lib_extractFirstURL lib text;
                               (msg, c2) =
                                 (if foundURL \<noteq> []
                                  then (case lib_fetchLinkPreview lib foundURL of
                                          Inl err \<Rightarrow> (Conversation text, [CallHttpGet foundURL])
                                        | Inr preview \<Rightarrow>
                                            (ExtendedTextMessage text foundURL
                                               (if lp_Title preview \<noteq> []
                                                then Some (lp_Title preview) else None)
                                               (if lp_Description preview \<noteq> []
                                                then Some (lp_Description preview) else None)
                                               (if length (lp_Thumbnail preview) > 0
                                                then Some (lp_Thumbnail preview) else None),
                                             [CallHttpGet foundURL]))
                                  else (Conversation text, []));
                               c3 = c1 @ c2 @ [CallSendMessage client jid msg]
                           in case lib_SendMessage lib client jid msg of
                                Inl err \<Rightarrow> (Inl (GoError (''whatsmeow send error: '' @ err)), c3)
                              | Inr respID \<Rightarrow>
                                  (Inr respID,
                                   c3 @ [CallGo [CallSendChatPresence client jid
                                                   ChatPresencePaused ChatPresenceMediaText]])))))"

definition SendPresence ::
  "Lib \<Rightarrow> Manager \<Rightarrow> string \<Rightarrow> string \<Rightarrow> string \<Rightarrow> (error + unit) \<times> lib_call list" where
  "SendPresence lib m instanceID to presence =
     (case GetInstance m instanceID of
        None \<Rightarrow> (Inl (GoError (''instance '' @ instanceID @ '' not found'')), [])
      | Some p \<Rightarrow>
          (let status = Status (inst_heap m p);
               client = Client (inst_heap m p)
           in if status \<noteq> ''connected'' then (Inl (GoError ''instance not connected''), [])
              else
                (let to1 = TrimPrefix to ''+'';
                     c1 = [CallIsOnWhatsApp client [to1]]
                 in case lib_IsOnWhatsApp lib client [to1] of
                      Inl err \<Rightarrow> (Inl (GoError (''failed to check user: '' @ err)), c1)
                    | Inr [] \<Rightarrow> (Inl (GoError (''user '' @ to1 @ '' not on WhatsApp'')), c1)
                    | Inr (u # _) \<Rightarrow>
                        (let jid = resp_JID u;
                             (pr, mp) =
                               (if presence = ''composing''
                                then (ChatPresenceComposing, ChatPresenceMediaText)
                                else if presence = ''recording''
                                then (ChatPresenceComposing, ChatPresenceMediaAudio)
                                else if presence = ''paused''
                                then (ChatPresencePaused, ChatPresenceMediaText)
                                else (ChatPresenceComposing, ChatPresenceMediaText));
                             c2 = c1 @ [CallSendChatPresence client jid pr mp]
                         in case lib_SendChatPresence lib client jid pr mp of
                              Some err \<Rightarrow> (Inl (GoError (''failed to send presence: '' @ err)), c2)
                            | None \<Rightarrow> (Inr (), c2)))))"

text \<open>The bytes and the MIME type of the media of \<open>SendMediaMessage\<close>: from a
  \<open>data:\<close> URI, or downloaded.\<close>

definition fetch_media :: "Lib \<Rightarrow> string \<Rightarrow> (error + string \<times> string) \<times> lib_call list" where
  "fetch_media lib mediaUrl =
     (if HasPrefix mediaUrl ''data:''
      then (case SplitN2 mediaUrl CHR '','' of
              [part0, part1] \<Rightarrow>
                (let mimeType = (case SplitN2 part0 CHR '';'' of
                                   [] \<Rightarrow> []
                                 | meta0 # _ \<Rightarrow> TrimPrefix meta0 ''data:'')
                 in if Contains part0 '';base64''
                    then (case lib_Base64Decode lib part1 of
                            Inl err \<Rightarrow> (Inl (GoError (''failed to decode data URI: '' @ err)), [])
                          | Inr data \<Rightarrow> (Inr (data, mimeType), []))
                    else (Inl (GoError ''url-encoded data URIs not supported yet''), []))
            | _ \<Rightarrow> (Inl (GoError ''invalid data URI''), []))
      else (case lib_NewRequest lib mediaUrl of
              Some err \<Rightarrow> (Inl (GoError (''failed to create request: '' @ err)), [])
            | None \<Rightarrow>
                (case lib_HttpGet lib mediaUrl of
                   Inl err \<Rightarrow>
                     (Inl (GoError (''failed to download media: '' @ err)), [CallHttpGet mediaUrl])
                 | Inr (code, body) \<Rightarrow>
                     if code \<noteq> 200
                     then (Inl (GoError (''failed to download media, status: '' @ show_nat code)),
                           [CallHttpGet mediaUrl])
                     else (case body of
                             Inl err \<Rightarrow>
                               (Inl (GoError (''failed to read media body: '' @ err)),
                                [CallHttpGet mediaUrl])
                           | Inr data \<Rightarrow>
                               (Inr (data, lib_DetectContentType lib data),
                                [CallHttpGet mediaUrl])))))"

text \<open>The first \<open>switch\<close> on \<open>mediaType\<close>: the upload type and the media type used from
  there on.\<close>

definition upload_kind :: "string \<Rightarrow> string \<Rightarrow> media_type \<times> string" where
  "upload_kind mediaType mimeType =
     (if mediaType = ''image'' then (MediaImage, mediaType)
      else if mediaType = ''video'' then (MediaVideo, mediaType)
      else if mediaType = ''audio'' then (MediaAudio, mediaType)
      else if HasPrefix mimeType ''image/'' then (MediaImage, ''image'')
      else if HasPrefix mimeType ''video/'' then (MediaVideo, ''video'')
      else if HasPrefix mimeType ''audio/'' then (MediaAudio, ''audio'')
      else (MediaDocument, ''document''))"

text \<open>The second \<open>switch\<close>: the message for the media type, \<open>None\<close> for its \<open>default\<close>.\<close>

definition media_message ::
  "string \<Rightarrow> string \<Rightarrow> UploadResponse \<Rightarrow> string \<Rightarrow> nat \<Rightarrow> wa_message option" where
  "media_message mediaType caption uploaded mimeType len =
     (if mediaType = ''image'' then Some (ImageMessage caption uploaded mimeType len)
      else if mediaType = ''video'' then Some (VideoMessage caption uploaded mimeType len)
      else if mediaType = ''audio'' then Some (AudioMessage uploaded mimeType len)
      else if mediaType = ''document''
      then Some (DocumentMessage caption uploaded mimeType len ''file'')
      else None)"

definition SendMediaMessage ::
  "Lib \<Rightarrow> Manager \<Rightarrow> string \<Rightarrow> string \<Rightarrow> string \<Rightarrow> string \<Rightarrow> string
     \<Rightarrow> (error + string) \<times> lib_call list" where
  "SendMediaMessage lib m instanceID to mediaUrl caption mediaType =
     (case GetInstance m instanceID of
        None \<Rightarrow> (Inl (GoError (''instance '' @ instanceID @ '' not found'')), [])
      | Some p \<Rightarrow>
          (let client = Client (inst_heap m p);
               to1 = TrimPrefix to ''+'';
               c1 = [CallIsOnWhatsApp client [to1]]
           in case lib_IsOnWhatsApp lib client [to1] of
                Inl err \<Rightarrow> (Inl (GoError (''user '' @ to1 @ '' not on WhatsApp'')), c1)
              | Inr [] \<Rightarrow> (Inl (GoError (''user '' @ to1 @ '' not on WhatsApp'')), c1)
              | Inr (u # _) \<Rightarrow>
                  (let jid = resp_JID u
                   in case fetch_media lib mediaUrl of
                        (Inl e, c2) \<Rightarrow> (Inl e, c1 @ c2)
                      | (Inr (data, mimeType), c2) \<Rightarrow>
                          (let (appMedia, mediaType1) = upload_kind mediaType mimeType;
                               c3 = c1 @ c2 @ [CallUpload client data appMedia]
                           in case lib_Upload lib client data appMedia of
                                Inl err \<Rightarrow> (Inl (GoError (''failed to upload media: '' @ err)), c3)
                              | Inr uploaded \<Rightarrow>
                                  (case media_message mediaType1 caption uploaded mimeType
                                          (length data) of
                                     None \<Rightarrow>
                                       (Inl (GoError (''unsupported media type: '' @ mediaType1)),
                                        c3)
                                   | Some msg \<Rightarrow>
                                       (case lib_SendMessage lib client jid msg of
                                          Inl err \<Rightarrow>
                                            (Inl (GoError (''failed to send media message: '' @ err)),
                                             c3 @ [CallSendMessage client jid msg])
                                        | Inr respID \<Rightarrow>
                                            (Inr respID,
                                             c3 @ [CallSendMessage client jid msg,
                                                   CallGo [CallSendChatPresence client jid
                                                             ChatPresencePaused
                                                             ChatPresenceMediaText]])))))))"

definition SendLocationMessage ::
  "Lib \<Rightarrow> Manager \<Rightarrow> string \<Rightarrow> string \<Rightarrow> real \<Rightarrow> real \<Rightarrow> string
     \<Rightarrow> (error + string) \<times> lib_call list" where
  "SendLocationMessage lib m instanceID to latitude longitude description =
     (case GetInstance m instanceID of
        None \<Rightarrow> (Inl (GoError ''instance not found''), [])
      | Some p \<Rightarrow>
          (let status = Status (inst_heap m p);
               client = Client (inst_heap m p)
           in if status \<noteq> ''connected'' then (Inl (GoError ''instance not connected''), [])
              else
                (case lib_ParseJID lib (clean_chat_id to) of
                   (_, Some err) \<Rightarrow> (Inl (GoError (''invalid JID: '' @ err)), [])
                 | (jid, None) \<Rightarrow>
                     (let msg = LocationMessage latitude longitude description description
                      in case lib_SendMessage lib client jid msg of
                           Inl err \<Rightarrow>
                             (Inl (GoError (''failed to send location: '' @ err)),
                              [CallSendMessage client jid msg])
                         | Inr respID \<Rightarrow> (Inr respID, [CallSendMessage client jid msg])))))"

definition SendPollMessage ::
  "Lib \<Rightarrow> Manager \<Rightarrow> string \<Rightarrow> string \<Rightarrow> string \<Rightarrow> string list \<Rightarrow> int
     \<Rightarrow> (error + string) \<times> lib_call list" where
  "SendPollMessage lib m instanceID to question options selectableCount =
     (case GetInstance m instanceID of
        None \<Rightarrow> (Inl (GoError ''instance not found''), [])
      | Some p \<Rightarrow>
          (let status = Status (inst_heap m p);
               client = Client (inst_heap m p)
           in if status \<noteq> ''connected'' then (Inl (GoError ''instance not connected''), [])
              else
                (case lib_ParseJID lib (clean_chat_id to) of
                   (_, Some err) \<Rightarrow> (Inl (GoError (''invalid JID: '' @ err)), [])
                 | (jid, None) \<Rightarrow>
                     (let pollMsg = PollCreation question options selectableCount;
                          c1 = [CallGetUserDevices client [jid], CallSendMessage client jid pollMsg]
                      in case lib_SendMessage lib client jid pollMsg of
                           Inl err \<Rightarrow> (Inl (GoError (''failed to send poll: '' @ err)), c1)
                         | Inr respID \<Rightarrow> (Inr respID, c1)))))"

text \<open>The identity probe of edit, react and delete: \<open>IsOnWhatsApp\<close> on the chat id
  without the user server; the first answer when it is \<open>IsIn\<close>, and nothing on an error.\<close>

definition resolve_probe :: "Lib \<Rightarrow> nat \<Rightarrow> string \<Rightarrow> JID option \<times> lib_call list" where
  "resolve_probe lib client chatID =
     (let q = [TrimSuffix chatID ''@s.whatsapp.net'']
      in (case lib_IsOnWhatsApp lib client q of
            Inl err \<Rightarrow> None
          | Inr [] \<Rightarrow> None
          | Inr (u # _) \<Rightarrow> (if resp_IsIn u then Some (resp_JID u) else None),
          [CallIsOnWhatsApp client q]))"

definition EditMessage ::
  "Lib \<Rightarrow> Manager \<Rightarrow> string \<Rightarrow> string \<Rightarrow> string \<Rightarrow> string \<Rightarrow> (error + string) \<times> lib_call list" where
  "EditMessage lib m instanceID chatID messageID newText =
     (case GetInstance m instanceID of
        None \<Rightarrow> (Inl (GoError ''instance not found''), [])
      | Some p \<Rightarrow>
          (let status = Status (inst_heap m p);
               client = Client (inst_heap m p)
           in if status \<noteq> ''connected'' then (Inl (GoError ''instance not connected''), [])
              else
                (let chatID1 = clean_chat_id chatID
                 in case lib_ParseJID lib chatID1 of
                      (_, Some err) \<Rightarrow> (Inl (GoError (''invalid chat JID: '' @ err)), [])
                    | (parsed, None) \<Rightarrow>
                        (let (resolved, c1) = resolve_probe lib client chatID1;
                             chatJID = (case resolved of Some j \<Rightarrow> j | None \<Rightarrow> parsed);
                             editMsg = EditOf chatJID messageID (Conversation newText);
                             c2 = c1 @ [CallSendMessage client chatJID editMsg]
                         in case lib_SendMessage lib client chatJID editMsg of
                              Inl err \<Rightarrow> (Inl (GoError (''failed to edit message: '' @ err)), c2)
                            | Inr respID \<Rightarrow> (Inr respID, c2)))))"

definition ReactToMessage ::
  "Lib \<Rightarrow> Manager \<Rightarrow> string \<Rightarrow> string \<Rightarrow> string \<Rightarrow> string \<Rightarrow> (error + unit) \<times> lib_call list" where
  "ReactToMessage lib m instanceID chatID messageID reaction =
     (case GetInstance m instanceID of
        None \<Rightarrow> (Inl (GoError ''instance not found''), [])
      | Some p \<Rightarrow>
          (let status = Status (inst_heap m p);
               client = Client (inst_heap m p)
           in if status \<noteq> ''connected'' then (Inl (GoError ''instance not connected''), [])
              else
                (let chatID1 = clean_chat_id chatID
                 in case lib_ParseJID lib chatID1 of
                      (_, Some err) \<Rightarrow> (Inl (GoError (''invalid chat JID: '' @ err)), [])
                    | (parsed, None) \<Rightarrow>
                        (let (resolved, c1) = resolve_probe lib client chatID1;
                             chatJID = (case resolved of Some j \<Rightarrow> j | None \<Rightarrow> parsed);
                             reactionMsg = ReactionTo chatJID EmptyJID messageID reaction;
                             c2 = c1 @ [CallSendMessage client chatJID reactionMsg]
                         in case lib_SendMessage lib client chatJID reactionMsg of
                              Inl err \<Rightarrow> (Inl (GoError (''failed to send reaction: '' @ err)), c2)
                            | Inr _ \<Rightarrow> (Inr (), c2)))))"

text \<open>\<open>DeleteMessage\<close> only logs what the probe resolved. Without \<open>forEveryone\<close> it
  reads \<open>inst.Client.Store.ID\<close>, a pointer: \<open>nil\<close> there is a panic.\<close>

definition DeleteMessage ::
  "Lib \<Rightarrow> Manager \<Rightarrow> string \<Rightarrow> string \<Rightarrow> string \<Rightarrow> bool \<Rightarrow> (error + unit) \<times> lib_call list" where
  "DeleteMessage lib m instanceID chatID messageID forEveryone =
     (case GetInstance m instanceID of
        None \<Rightarrow> (Inl (GoError ''instance not found''), [])
      | Some p \<Rightarrow>
          (let status = Status (inst_heap m p);
               client = Client (inst_heap m p)
           in if status \<noteq> ''connected'' then (Inl (GoError ''instance not connected''), [])
              else
                (let chatID1 = clean_chat_id chatID
                 in case lib_ParseJID lib chatID1 of
                      (_, Some err) \<Rightarrow> (Inl (GoError (''invalid chat JID: '' @ err)), [])
                    | (chatJID, None) \<Rightarrow>
                        (let (resolved, c1) = resolve_probe lib client chatID1
                         in case (if forEveryone then Some EmptyJID
                                  else lib_StoreID lib client) of
                              None \<Rightarrow> (Inl (GoPanic ''nil pointer dereference''), c1)
                            | Some sender \<Rightarrow>
                                (let revokeMsg = RevokeOf chatJID sender messageID;
                                     c2 = c1 @ [CallSendMessage client chatJID revokeMsg]
                                 in case lib_SendMessage lib client chatJID revokeMsg of
                                      Inl err \<Rightarrow>
                                        (Inl (GoError (''failed to delete message: '' @ err)), c2)
                                    | Inr _ \<Rightarrow> (Inr (), c2))))))"


section \<open>Concrete states and answers used in the examples\<close>

definition sample_message :: "string \<Rightarrow> MessageData" where
  "sample_message mid =
     \<lparr> msg_ID = mid, msg_From = ''5511999999999@s.whatsapp.net'',
       msg_To = ''5511888888888@s.whatsapp.net'', msg_Body = ''hello'', msg_Type = ''text'',
       msg_Timestamp = 1700000000, msg_FromMe = False, msg_IsGroup = False,
       msg_PushName = [], msg_ResolvedPhone = [], msg_MediaBase64 = [], msg_Mimetype = [],
       msg_Caption = [], msg_FileName = [] \<rparr>"

definition sample_JID :: JID where
  "sample_JID = \<lparr> jid_User = ''5511999999999'', jid_Server = ''s.whatsapp.net'' \<rparr>"

text \<open>A library in which every call succeeds, the transport is live and the client of
  handle 1 is paired; \<open>unpaired_Lib\<close> is the same with no client paired.\<close>

definition sample_Lib :: Lib where
  "sample_Lib =
     \<lparr> lib_Now = 1700000000,
       lib_ParseJID = (\<lambda>s. (\<lparr> jid_User = takeWhile (\<lambda>x. x \<noteq> CHR ''@'') s,
                                jid_Server = drop 1 (dropWhile (\<lambda>x. x \<noteq> CHR ''@'') s) \<rparr>, None)),
       lib_JIDString = (\<lambda>j. jid_User j @ ''@'' @ jid_Server j),
       lib_GetDevice = (\<lambda>j. Inr (Some 2)),
       lib_NewDevice = 4,
       lib_NewClient = (\<lambda>d. Suc d),
       lib_StoreID = (\<lambda>c. if c = 1 then Some sample_JID else None),
       lib_StorePushName = (\<lambda>c. ''Ana''),
       lib_Connect = (\<lambda>c. None),
       lib_Logout = (\<lambda>c. None),
       lib_IsConnected_before = (\<lambda>c. False),
       lib_IsConnected_after = (\<lambda>c. True),
       lib_PairPhone = (\<lambda>c phone. Inr ''ABCD1234''),
       lib_QRPngBase64 = (\<lambda>code. Some ''iVBORw0KGgo=''),
       lib_IsOnWhatsApp = (\<lambda>c q. Inr [\<lparr> resp_JID = sample_JID, resp_IsIn = True \<rparr>]),
       lib_Upload = (\<lambda>c data kind.
                       Inr \<lparr> up_URL = ''https://mmg.whatsapp.net/f'', up_DirectPath = ''/f'',
                             up_MediaKey = ''k'', up_FileEncSHA256 = ''e'', up_FileSHA256 = ''h'' \<rparr>),
       lib_SendMessage = (\<lambda>c j msg. Inr ''3EB0A1B2C3''),
       lib_SendChatPresence = (\<lambda>c j p mp. None),
       lib_extractFirstURL = (\<lambda>t. []),
       lib_fetchLinkPreview = (\<lambda>u. Inl ''status 404''),
       lib_NewRequest = (\<lambda>u. None),
       lib_HttpGet = (\<lambda>u. Inr (200, Inr ''GIF89a'')),
       lib_Base64Decode = (\<lambda>s. Inr ''GIF89a''),
       lib_DetectContentType = (\<lambda>d. ''image/gif'') \<rparr>"

definition unpaired_Lib :: Lib where
  "unpaired_Lib = sample_Lib\<lparr> lib_StoreID := (\<lambda>c. None) \<rparr>"

definition dead_Lib :: Lib where
  "dead_Lib = unpaired_Lib\<lparr> lib_IsConnected_after := (\<lambda>c. False) \<rparr>"

definition failing_Lib :: Lib where
  "failing_Lib = sample_Lib\<lparr> lib_Connect := (\<lambda>c. Some ''dial tcp: timeout''),
                              lib_Logout := (\<lambda>c. Some ''websocket not connected'') \<rparr>"

text \<open>A manager holding the one instance \<open>acct1\<close> at address 0, with client 1 on
  device 2, in the given status and with the given QR and pairing-code fields, paired
  (its mapping entry is there), with one subscriber channel at address 0.\<close>

definition sample_Instance :: "string \<Rightarrow> Instance" where
  "sample_Instance st =
     (new_Instance ''acct1'' 1 2)\<lparr> Status := st, QRCode := ''2@AbCd'',
        QRCodeBase64 := ''data:image/png;base64,iVBORw0KGgo='', PairingCode := ''ABCD-1234'',
        WANumber := ''5511999999999'' \<rparr>"

definition sample_Manager :: "string \<Rightarrow> Manager" where
  "sample_Manager st =
     \<lparr> instances = [''acct1'' \<mapsto> 0],
       mapping = [''acct1'' \<mapsto> ''5511999999999@s.whatsapp.net''],
       eventSubs = [''acct1'' \<mapsto> [0]],
       messages = Map.empty,
       inst_heap = (\<lambda>_. zero_Instance)(0 := sample_Instance st),
       chan_heap = (\<lambda>_. zero_Chan)(0 := \<lparr> queue = [], capacity = 100, is_closed = False \<rparr>),
       next_inst = 1, next_chan = 1 \<rparr>"


text \<open>An event, and a manager with two subscribers of \<open>acct1\<close>: the channel at address 0
  is empty, the channel at address 1 is full.\<close>

definition sample_Event :: "string \<Rightarrow> string \<Rightarrow> Event" where
  "sample_Event ty instanceID =
     \<lparr> evt_Type = ty, evt_InstanceID = instanceID, evt_Data = DataNil, evt_Timestamp = 0 \<rparr>"

text \<open>The manager after one \<open>Subscribe("acct1")\<close> on \<open>NewManager\<close>'s state: what the
  websocket handler of \<open>/ws/acct1\<close> sets up. Its channel is at address 0.\<close>

definition one_subscriber :: Manager where
  "one_subscriber = snd (Subscribe empty_Manager ''acct1'')"

definition two_subs :: Manager where
  "two_subs =
     empty_Manager
       \<lparr> eventSubs := [''acct1'' \<mapsto> [0, 1]],
         chan_heap := (\<lambda>_. zero_Chan)
           (0 := \<lparr> queue = [], capacity = 100, is_closed = False \<rparr>,
            1 := \<lparr> queue = replicate 100 (sample_Event ''message'' ''acct1''),
                   capacity = 100, is_closed = False \<rparr>),
         next_chan := 2 \<rparr>"


section \<open>Properties of the message cache\<close>

lemma stored_storeMessage:
  "stored (storeMessage m i c x) i' c' =
     (if i' = i \<and> c' = c then last_n 500 (stored m i c @ [x]) else stored m i' c')"
  by (auto simp: stored_def storeMessage_def last_n_def Let_def split: option.splits)

lemma last_n_append_last_n:
  "last_n n (last_n n xs @ ys) = last_n n (xs @ ys)"
proof (cases "length xs \<le> n")
  case True
  then show ?thesis by (simp add: last_n_def)
next
  case False
  then have "length xs + length ys - n = (length xs - n) + length ys" by arith
  moreover have "length (drop (length xs - n) xs) + length ys - n = length ys"
    using False by simp
  ultimately show ?thesis
    using False by (simp add: last_n_def add.commute)
qed

lemma stored_storeMessages:
  "length (stored m i c) \<le> 500 \<Longrightarrow>
   stored (storeMessages m calls) i c = last_n 500 (stored m i c @ arrivals i c calls)"
proof (induction calls arbitrary: m)
  case Nil
  then show ?case by (simp add: last_n_def)
next
  case (Cons call calls)
  obtain i' c' x where call: "call = (i', c', x)" by (cases call)
  show ?case
  proof (cases "i' = i \<and> c' = c")
    case True
    let ?m = "storeMessage m i c x"
    have len: "length (stored ?m i c) \<le> 500"
      by (simp add: stored_storeMessage last_n_def)
    have "stored (storeMessages ?m calls) i c = last_n 500 (stored ?m i c @ arrivals i c calls)"
      using Cons.IH [OF len] .
    also have "stored ?m i c = last_n 500 (stored m i c @ [x])"
      by (simp add: stored_storeMessage)
    also have "last_n 500 (last_n 500 (stored m i c @ [x]) @ arrivals i c calls)
               = last_n 500 ((stored m i c @ [x]) @ arrivals i c calls)"
      by (rule last_n_append_last_n)
    finally show ?thesis using True call by simp
  next
    case False
    let ?m = "storeMessage m i' c' x"
    have same: "stored ?m i c = stored m i c"
      using False by (auto simp: stored_storeMessage)
    then have "length (stored ?m i c) \<le> 500" using Cons.prems by simp
    from Cons.IH [OF this] show ?thesis using False call same by auto
  qed
qed

text \<open>
  C3. Started from the empty cache of \<open>NewManager\<close>, after any sequence of
  \<open>storeMessage\<close> calls the list kept for any (instance, chat) key has at most 500 entries
  and is exactly the last 500 of the messages that arrived for the key, in arrival order
  (eviction from the front); so after 501 messages for one key the list is those messages
  without the first.
\<close>

theorem storeMessage_bounded_fifo:
  "length (stored (storeMessages empty_Manager calls) i c) \<le> 500
   \<and> stored (storeMessages empty_Manager calls) i c = last_n 500 (arrivals i c calls)
   \<and> (length xs = 501 \<longrightarrow>
        stored (storeMessages empty_Manager (map (\<lambda>x. (i, c, x)) xs)) i c = tl xs)"
proof -
  have e: "stored empty_Manager i c = []"
    by (simp add: stored_def empty_Manager_def)
  have eq: "stored (storeMessages empty_Manager cs) i c = last_n 500 (arrivals i c cs)" for cs
    using stored_storeMessages [of empty_Manager i c cs] e by simp
  have arr: "arrivals i c (map (\<lambda>x. (i, c, x)) ys) = ys" for ys
    by (induction ys) auto
  have "length xs = 501 \<Longrightarrow> last_n 500 xs = tl xs"
    by (simp add: last_n_def drop_Suc)
  then show ?thesis
    using eq arr by (auto simp: last_n_def)
qed

theorem storeMessage_bounded_fifo_witness:
  "length (map (\<lambda>n. sample_message (show_nat n)) [0..<501]) = 501
   \<and> stored (storeMessages empty_Manager
               (map (\<lambda>x. (''acct1'', ''chat'', x))
                  (map (\<lambda>n. sample_message (show_nat n)) [0..<501])))
        ''acct1'' ''chat''
     = tl (map (\<lambda>n. sample_message (show_nat n)) [0..<501])"
proof -
  have l: "length (map (\<lambda>n. sample_message (show_nat n)) [0..<501]) = 501"
    by simp
  show ?thesis
    using storeMessage_bounded_fifo
            [of "[]" "''acct1''" "''chat''" "map (\<lambda>n. sample_message (show_nat n)) [0..<501]"] l
    by blast
qed

text \<open>
  C4. \<open>GetChatMessages\<close> never fails. What it returns is a suffix of the stored list
  (so: the most recent entries, in arrival order, never more than are stored, and the
  empty list when nothing is stored for the instance or the chat); for a positive limit
  it has exactly \<open>min limit n\<close> entries, which is all of them when \<open>n \<le> limit\<close>.
\<close>

theorem GetChatMessages_recent:
  "\<exists>r. GetChatMessages m i c limit = Inr r
       \<and> suffix r (stored m i c)
       \<and> r = last_n (length r) (stored m i c)
       \<and> length r \<le> length (stored m i c)
       \<and> (0 < limit \<longrightarrow> length r = min (nat limit) (length (stored m i c)))
       \<and> (0 < limit \<and> int (length (stored m i c)) \<le> limit \<longrightarrow> r = stored m i c)
       \<and> (messages m i = None \<or> (\<exists>cm. messages m i = Some cm \<and> cm c = None) \<longrightarrow> r = [])"
proof (cases "messages m i")
  case None
  then show ?thesis
    by (simp add: GetChatMessages_def stored_def last_n_def)
next
  case (Some cm)
  show ?thesis
  proof (cases "cm c")
    case None
    with Some show ?thesis
      by (simp add: GetChatMessages_def stored_def last_n_def)
  next
    case inner: (Some msgs)
    have st: "stored m i c = msgs"
      using Some inner by (simp add: stored_def)
    show ?thesis
    proof (cases "limit > 0 \<and> int (length msgs) > limit")
      case True
      then have g: "GetChatMessages m i c limit = Inr (drop (nat (int (length msgs) - limit)) msgs)"
        using Some inner by (simp add: GetChatMessages_def)
      have len: "length (drop (nat (int (length msgs) - limit)) msgs) = nat limit"
        using True by auto
      have "length msgs - nat limit = nat (int (length msgs) - limit)"
        using True by auto
      then have ln: "last_n (nat limit) msgs = drop (nat (int (length msgs) - limit)) msgs"
        by (simp add: last_n_def)
      show ?thesis
        using True Some inner g len ln st
        by (auto simp: suffix_drop)
    next
      case False
      then have g: "GetChatMessages m i c limit = Inr msgs"
        using Some inner by (auto simp: GetChatMessages_def)
      show ?thesis
        using False Some inner g st
        by (auto simp: last_n_def)
    qed
  qed
qed

theorem GetChatMessages_recent_witness:
  "(0::int) < 2
   \<and> GetChatMessages
        (storeMessages empty_Manager
           [(''acct1'', ''chat'', sample_message ''m1''),
            (''acct1'', ''chat'', sample_message ''m2''),
            (''acct1'', ''chat'', sample_message ''m3'')])
        ''acct1'' ''chat'' 2
     = Inr [sample_message ''m2'', sample_message ''m3'']
   \<and> GetChatMessages
        (storeMessages empty_Manager
           [(''acct1'', ''chat'', sample_message ''m1'')])
        ''acct1'' ''chat'' 2
     = Inr [sample_message ''m1'']
   \<and> messages empty_Manager ''acct1'' = None
   \<and> GetChatMessages empty_Manager ''acct1'' ''chat'' 2 = Inr []"
  using GetChatMessages_recent
          [of "storeMessages empty_Manager
                 [(''acct1'', ''chat'', sample_message ''m1''),
                  (''acct1'', ''chat'', sample_message ''m2''),
                  (''acct1'', ''chat'', sample_message ''m3'')]" "''acct1''" "''chat''" 2]
        GetChatMessages_recent
          [of "storeMessages empty_Manager
                 [(''acct1'', ''chat'', sample_message ''m1'')]" "''acct1''" "''chat''" 2]
        GetChatMessages_recent [of empty_Manager "''acct1''" "''chat''" 2]
  by (simp add: GetChatMessages_def storeMessage_def empty_Manager_def stored_def)


section \<open>Properties of the registry and of the lifecycle operations\<close>

lemmas sample_defs =
  sample_Manager_def sample_Lib_def unpaired_Lib_def dead_Lib_def failing_Lib_def
  sample_Instance_def new_Instance_def empty_Manager_def zero_Instance_def

lemma GetOrCreateInstance_existing:
  "instances m instanceID = Some p \<Longrightarrow> GetOrCreateInstance lib m instanceID = (Inr p, m, [])"
  by (simp add: GetOrCreateInstance_def)

lemma GetOrCreateInstance_returns:
  "\<exists>p m1 c1. GetOrCreateInstance lib m instanceID = (Inr p, m1, c1)
              \<and> instances m1 instanceID = Some p"
  by (auto simp: GetOrCreateInstance_def create_new_def register_instance_def Let_def
           split: option.splits sum.splits)

lemma GetOrCreateInstance_fresh_status:
  "instances m instanceID = None \<Longrightarrow>
   GetOrCreateInstance lib m instanceID = (r, m1, c1) \<Longrightarrow>
   \<exists>p. r = Inr p \<and> Status (inst_heap m1 p) = ''disconnected''"
  by (auto simp: GetOrCreateInstance_def create_new_def register_instance_def Let_def
                 new_Instance_def
           split: option.splits sum.splits)

lemma GetOrCreateInstance_no_PairPhone:
  "GetOrCreateInstance lib m instanceID = (r, m1, c1) \<Longrightarrow> \<not> list_ex is_PairPhone c1"
  by (auto simp: GetOrCreateInstance_def create_new_def register_instance_def Let_def
           split: option.splits sum.splits)

lemma request_pairing_code_not_live:
  "\<not> lib_IsConnected_after lib (Client (inst_heap m p)) \<Longrightarrow>
   request_pairing_code lib m instanceID p phone calls =
     (Inl (GoError ''failed to establish connection to WhatsApp servers''),
      upd_inst m p (\<lambda>i. i\<lparr> Status := ''disconnected'' \<rparr>),
      calls @ [CallSleep 2000, CallIsConnected (Client (inst_heap m p))])"
  by (simp add: request_pairing_code_def Let_def)

lemma send_all_inst_heap:
  "send_all m evt chs = Inr m' \<Longrightarrow> inst_heap m' = inst_heap m"
  by (induction chs arbitrary: m) (auto simp: Let_def split: if_splits)

lemma publishEvent_inst_heap:
  "publishEvent now m evt = Inr m' \<Longrightarrow> inst_heap m' = inst_heap m"
  by (auto simp: publishEvent_def publish_read_def Let_def dest: send_all_inst_heap)

lemma request_pairing_code_returns:
  "request_pairing_code lib m instanceID p phone calls = (Inr code, m', cs) \<Longrightarrow>
   lib_IsConnected_after lib (Client (inst_heap m p))
   \<and> (\<exists>raw. lib_PairPhone lib (Client (inst_heap m p)) phone = Inr raw
        \<and> code = (if length raw = 8 then take 4 raw @ ''-'' @ drop 4 raw else raw))
   \<and> cs = calls @ [CallSleep 2000, CallIsConnected (Client (inst_heap m p)),
                   CallPairPhone (Client (inst_heap m p)) phone]
   \<and> PairingCode (inst_heap m' p) = code"
  by (auto simp: request_pairing_code_def Let_def upd_inst_def
           split: if_splits sum.splits dest!: publishEvent_inst_heap)

text \<open>
  \<open>Logout\<close> on a paired, connected instance with a library whose logout succeeds: the call
  returns no error, and the mapping entry of the id is still there afterwards.
\<close>

theorem Logout_keeps_mapping_counterexample:
  "instances (sample_Manager ''connected'') ''acct1'' = Some 0
   \<and> fst (Logout sample_Lib (sample_Manager ''connected'') ''acct1'') = Inr ()
   \<and> mapping (fst (snd (Logout sample_Lib (sample_Manager ''connected'') ''acct1''))) ''acct1''
       = Some ''5511999999999@s.whatsapp.net''"
  by (simp add: Logout_def sample_Manager_def sample_Lib_def Let_def)

text \<open>
  C1 (as amended). For an id that is not registered \<open>Logout\<close> returns the not-found error,
  calls nothing and changes nothing. For a registered id it calls the library's logout
  and, when that call succeeds, disconnects the transport and removes the instance from
  the registry map, so that a later lookup of the id finds no instance; nothing else of
  the manager changes: the mapping entry of the id is left as it was, and the mapping
  file is not written.
\<close>

theorem Logout_removes_instance:
  "(instances m instanceID = None \<longrightarrow>
      Logout lib m instanceID =
        (Inl (GoError (''instance '' @ instanceID @ '' not found'')), m, []))
   \<and> (instances m instanceID = Some p \<and> lib_Logout lib (Client (inst_heap m p)) = None \<longrightarrow>
        (\<exists>m'. Logout lib m instanceID =
                 (Inr (), m', [CallLogout (Client (inst_heap m p)),
                               CallDisconnect (Client (inst_heap m p))])
              \<and> instances m' = (instances m)(instanceID := None)
              \<and> GetInstance m' instanceID = None
              \<and> mapping m' = mapping m
              \<and> m' = m\<lparr> instances := instances m' \<rparr>))"
  by (simp add: Logout_def GetInstance_def Let_def)

theorem Logout_removes_instance_witness:
  "instances empty_Manager ''ghost'' = None
   \<and> Logout sample_Lib empty_Manager ''ghost'' =
        (Inl (GoError ''instance ghost not found''), empty_Manager, [])
   \<and> instances (sample_Manager ''connected'') ''acct1'' = Some 0
   \<and> lib_Logout sample_Lib (Client (inst_heap (sample_Manager ''connected'') 0)) = None
   \<and> snd (snd (Logout sample_Lib (sample_Manager ''connected'') ''acct1''))
        = [CallLogout 1, CallDisconnect 1]
   \<and> GetInstance (fst (snd (Logout sample_Lib (sample_Manager ''connected'') ''acct1''))) ''acct1''
        = None"
  using Logout_removes_instance [of empty_Manager "''ghost''" sample_Lib 0]
        Logout_removes_instance [of "sample_Manager ''connected''" "''acct1''" sample_Lib 0]
  by (auto simp: sample_Manager_def sample_Lib_def sample_Instance_def
        new_Instance_def empty_Manager_def)

text \<open>
  C6. \<open>Connect\<close> on an id whose instance has status \<open>connected\<close> returns that instance,
  leaves the manager as it is and makes no call. In every other case the instance that
  \<open>GetOrCreateInstance\<close> gives is asked to connect (one \<open>Connect\<close> call of the library
  on its client): on success the instance is returned with status \<open>connecting\<close>, on
  failure the wrapped error is returned and the status is \<open>disconnected\<close>.
\<close>

theorem Connect_idempotent_or_connects:
  "(instances m instanceID = Some p \<and> Status (inst_heap m p) = ''connected'' \<longrightarrow>
      Connect lib m instanceID = (Inr p, m, []))
   \<and> (\<not> (\<exists>q. instances m instanceID = Some q \<and> Status (inst_heap m q) = ''connected'') \<longrightarrow>
        (\<exists>q m1 c1.
            GetOrCreateInstance lib m instanceID = (Inr q, m1, c1)
          \<and> (case lib_Connect lib (Client (inst_heap m1 q)) of
                None \<Rightarrow>
                  Connect lib m instanceID =
                    (Inr q, upd_inst m1 q (\<lambda>i. i\<lparr> Status := ''connecting'' \<rparr>),
                     c1 @ [CallConnect (Client (inst_heap m1 q))])
              | Some err \<Rightarrow>
                  Connect lib m instanceID =
                    (Inl (GoError (''failed to connect: '' @ err)),
                     upd_inst m1 q (\<lambda>i. i\<lparr> Status := ''disconnected'' \<rparr>),
                     c1 @ [CallConnect (Client (inst_heap m1 q))]))))"
proof (intro conjI impI)
  assume "instances m instanceID = Some p \<and> Status (inst_heap m p) = ''connected''"
  then show "Connect lib m instanceID = (Inr p, m, [])"
    by (simp add: Connect_def GetOrCreateInstance_existing)
next
  assume nc: "\<not> (\<exists>q. instances m instanceID = Some q \<and> Status (inst_heap m q) = ''connected'')"
  obtain q m1 c1 where g: "GetOrCreateInstance lib m instanceID = (Inr q, m1, c1)"
    using GetOrCreateInstance_returns by blast
  have st: "Status (inst_heap m1 q) \<noteq> ''connected''"
  proof (cases "instances m instanceID")
    case None
    from GetOrCreateInstance_fresh_status [OF None g] show ?thesis by auto
  next
    case (Some q')
    with g have "q = q'" "m1 = m" by (simp_all add: GetOrCreateInstance_existing)
    with nc Some show ?thesis by auto
  qed
  have "case lib_Connect lib (Client (inst_heap m1 q)) of
          None \<Rightarrow>
            Connect lib m instanceID =
              (Inr q, upd_inst m1 q (\<lambda>i. i\<lparr> Status := ''connecting'' \<rparr>),
               c1 @ [CallConnect (Client (inst_heap m1 q))])
        | Some err \<Rightarrow>
            Connect lib m instanceID =
              (Inl (GoError (''failed to connect: '' @ err)),
               upd_inst m1 q (\<lambda>i. i\<lparr> Status := ''disconnected'' \<rparr>),
               c1 @ [CallConnect (Client (inst_heap m1 q))])"
    using g st by (auto simp: Connect_def upd_inst_def Let_def split: option.splits)
  with g show "\<exists>q m1 c1.
            GetOrCreateInstance lib m instanceID = (Inr q, m1, c1)
          \<and> (case lib_Connect lib (Client (inst_heap m1 q)) of
                None \<Rightarrow>
                  Connect lib m instanceID =
                    (Inr q, upd_inst m1 q (\<lambda>i. i\<lparr> Status := ''connecting'' \<rparr>),
                     c1 @ [CallConnect (Client (inst_heap m1 q))])
              | Some err \<Rightarrow>
                  Connect lib m instanceID =
                    (Inl (GoError (''failed to connect: '' @ err)),
                     upd_inst m1 q (\<lambda>i. i\<lparr> Status := ''disconnected'' \<rparr>),
                     c1 @ [CallConnect (Client (inst_heap m1 q))]))"
    by blast
qed

theorem Connect_idempotent_or_connects_witness:
  "instances (sample_Manager ''connected'') ''acct1'' = Some 0
   \<and> Status (inst_heap (sample_Manager ''connected'') 0) = ''connected''
   \<and> Connect sample_Lib (sample_Manager ''connected'') ''acct1''
        = (Inr 0, sample_Manager ''connected'', [])
   \<and> \<not> (\<exists>q. instances (sample_Manager ''qr'') ''acct1'' = Some q
              \<and> Status (inst_heap (sample_Manager ''qr'') q) = ''connected'')
   \<and> Connect failing_Lib (sample_Manager ''qr'') ''acct1''
        = (Inl (GoError ''failed to connect: dial tcp: timeout''),
           sample_Manager ''disconnected'', [CallConnect 1])
   \<and> Connect sample_Lib (sample_Manager ''qr'') ''acct1''
        = (Inr 0, sample_Manager ''connecting'', [CallConnect 1])"
proof -
  have h: "instances (sample_Manager ''connected'') ''acct1'' = Some 0
           \<and> Status (inst_heap (sample_Manager ''connected'') 0) = ''connected''"
    by (simp add: sample_defs)
  have c: "Connect sample_Lib (sample_Manager ''connected'') ''acct1''
             = (Inr 0, sample_Manager ''connected'', [])"
    using Connect_idempotent_or_connects
            [of "sample_Manager ''connected''" "''acct1''" 0 sample_Lib] h
    by blast
  have n: "\<not> (\<exists>q. instances (sample_Manager ''qr'') ''acct1'' = Some q
              \<and> Status (inst_heap (sample_Manager ''qr'') q) = ''connected'')"
    by (simp add: sample_defs)
  have g: "GetOrCreateInstance lib (sample_Manager ''qr'') ''acct1''
             = (Inr 0, sample_Manager ''qr'', [])" for lib
    by (simp add: GetOrCreateInstance_def sample_Manager_def)
  have cl: "Client (inst_heap (sample_Manager ''qr'') 0) = Suc 0"
    by (simp add: sample_defs)
  have u: "upd_inst (sample_Manager ''qr'') 0 (\<lambda>i. i\<lparr> Status := st \<rparr>) = sample_Manager st" for st
    by (simp add: upd_inst_def sample_defs)
  have lcf: "lib_Connect failing_Lib (Suc 0) = Some ''dial tcp: timeout''"
    by (simp add: failing_Lib_def sample_Lib_def)
  have lcs: "lib_Connect sample_Lib (Suc 0) = None"
    by (simp add: sample_Lib_def)
  have f: "Connect failing_Lib (sample_Manager ''qr'') ''acct1''
        = (Inl (GoError ''failed to connect: dial tcp: timeout''),
           sample_Manager ''disconnected'', [CallConnect 1])"
    using Connect_idempotent_or_connects
            [of "sample_Manager ''qr''" "''acct1''" 0 failing_Lib] n
    by (simp add: g cl u lcf)
  have s: "Connect sample_Lib (sample_Manager ''qr'') ''acct1''
        = (Inr 0, sample_Manager ''connecting'', [CallConnect 1])"
    using Connect_idempotent_or_connects
            [of "sample_Manager ''qr''" "''acct1''" 0 sample_Lib] n
    by (simp add: g cl u lcs)
  show ?thesis using h c n f s by blast
qed

text \<open>
  C7. Let \<open>p\<close> be the instance that \<open>GetOrCreateInstance\<close> gives for the id. If its status
  is \<open>connected\<close>, or its client has a stored device id, \<open>ConnectWithPairingCode\<close>
  returns the corresponding error, changes nothing more and asks for no pairing code. If
  neither holds and the transport is not live after the two-second wait, or the library
  fails to connect it, the status becomes \<open>disconnected\<close> and a connectivity error is
  returned, again without a request for a code. Whenever a code is returned, the instance was not connected, had no
  stored device id, the transport was live, the code was requested from the library and
  it is the \<open>PairingCode\<close> of the instance. The function is total: it always returns.
\<close>

theorem ConnectWithPairingCode_guards:
  assumes g: "GetOrCreateInstance lib m instanceID = (Inr p, m1, c1)"
  shows
  "(Status (inst_heap m1 p) = ''connected'' \<longrightarrow>
      ConnectWithPairingCode lib m instanceID phoneNumber =
        (Inl (GoError ''already connected''), m1, c1)
      \<and> \<not> list_ex is_PairPhone c1)
   \<and> (Status (inst_heap m1 p) \<noteq> ''connected''
        \<and> lib_StoreID lib (Client (inst_heap m1 p)) \<noteq> None \<longrightarrow>
      ConnectWithPairingCode lib m instanceID phoneNumber =
        (Inl (GoError ''already has a session, use QR code or disconnect first''), m1, c1)
      \<and> \<not> list_ex is_PairPhone c1)
   \<and> (Status (inst_heap m1 p) \<noteq> ''connected''
        \<and> lib_StoreID lib (Client (inst_heap m1 p)) = None
        \<and> (lib_IsConnected_before lib (Client (inst_heap m1 p))
             \<or> lib_Connect lib (Client (inst_heap m1 p)) = None)
        \<and> \<not> lib_IsConnected_after lib (Client (inst_heap m1 p)) \<longrightarrow>
      (\<exists>m' cs. ConnectWithPairingCode lib m instanceID phoneNumber =
                  (Inl (GoError ''failed to establish connection to WhatsApp servers''), m', cs)
               \<and> Status (inst_heap m' p) = ''disconnected''
               \<and> \<not> list_ex is_PairPhone cs))
   \<and> (Status (inst_heap m1 p) \<noteq> ''connected''
        \<and> lib_StoreID lib (Client (inst_heap m1 p)) = None
        \<and> \<not> lib_IsConnected_before lib (Client (inst_heap m1 p))
        \<and> lib_Connect lib (Client (inst_heap m1 p)) = Some err \<longrightarrow>
      (\<exists>m' cs. ConnectWithPairingCode lib m instanceID phoneNumber =
                  (Inl (GoError (''failed to connect: '' @ err)), m', cs)
               \<and> Status (inst_heap m' p) = ''disconnected''
               \<and> \<not> list_ex is_PairPhone cs))
   \<and> (\<forall>code m' cs.
         ConnectWithPairingCode lib m instanceID phoneNumber = (Inr code, m', cs) \<longrightarrow>
           Status (inst_heap m1 p) \<noteq> ''connected''
         \<and> lib_StoreID lib (Client (inst_heap m1 p)) = None
         \<and> lib_IsConnected_after lib (Client (inst_heap m1 p))
         \<and> list_ex is_PairPhone cs
         \<and> PairingCode (inst_heap m' p) = code)"
proof (intro conjI impI allI)
  show "\<not> list_ex is_PairPhone c1" "\<not> list_ex is_PairPhone c1"
    using GetOrCreateInstance_no_PairPhone [OF g] by simp_all
next
  assume "Status (inst_heap m1 p) = ''connected''"
  then show "ConnectWithPairingCode lib m instanceID phoneNumber =
        (Inl (GoError ''already connected''), m1, c1)"
    using g by (simp add: ConnectWithPairingCode_def)
next
  assume "Status (inst_heap m1 p) \<noteq> ''connected''
        \<and> lib_StoreID lib (Client (inst_heap m1 p)) \<noteq> None"
  then show "ConnectWithPairingCode lib m instanceID phoneNumber =
        (Inl (GoError ''already has a session, use QR code or disconnect first''), m1, c1)"
    using g by (auto simp: ConnectWithPairingCode_def Let_def)
next
  assume a: "Status (inst_heap m1 p) \<noteq> ''connected''
        \<and> lib_StoreID lib (Client (inst_heap m1 p)) = None
        \<and> (lib_IsConnected_before lib (Client (inst_heap m1 p))
             \<or> lib_Connect lib (Client (inst_heap m1 p)) = None)
        \<and> \<not> lib_IsConnected_after lib (Client (inst_heap m1 p))"
  let ?m2 = "upd_inst m1 p (\<lambda>i. i\<lparr> Status := ''pairing'' \<rparr>)"
  have cl: "Client (inst_heap ?m2 p) = Client (inst_heap m1 p)"
    by (simp add: upd_inst_def)
  have nl: "\<not> lib_IsConnected_after lib (Client (inst_heap ?m2 p))"
    using a cl by simp
  show "\<exists>m' cs. ConnectWithPairingCode lib m instanceID phoneNumber =
                  (Inl (GoError ''failed to establish connection to WhatsApp servers''), m', cs)
               \<and> Status (inst_heap m' p) = ''disconnected''
               \<and> \<not> list_ex is_PairPhone cs"
  proof -
    have "\<exists>cs. ConnectWithPairingCode lib m instanceID phoneNumber =
                  (Inl (GoError ''failed to establish connection to WhatsApp servers''),
                   upd_inst ?m2 p (\<lambda>i. i\<lparr> Status := ''disconnected'' \<rparr>), cs)
               \<and> \<not> list_ex is_PairPhone cs"
      using g a GetOrCreateInstance_no_PairPhone [OF g]
      by (auto simp: ConnectWithPairingCode_def Let_def request_pairing_code_not_live [OF nl] cl)
    moreover have "Status (inst_heap (upd_inst ?m2 p (\<lambda>i. i\<lparr> Status := ''disconnected'' \<rparr>)) p)
                   = ''disconnected''"
      by (simp add: upd_inst_def)
    ultimately show ?thesis by blast
  qed
next
  assume a: "Status (inst_heap m1 p) \<noteq> ''connected''
        \<and> lib_StoreID lib (Client (inst_heap m1 p)) = None
        \<and> \<not> lib_IsConnected_before lib (Client (inst_heap m1 p))
        \<and> lib_Connect lib (Client (inst_heap m1 p)) = Some err"
  show "\<exists>m' cs. ConnectWithPairingCode lib m instanceID phoneNumber =
                  (Inl (GoError (''failed to connect: '' @ err)), m', cs)
               \<and> Status (inst_heap m' p) = ''disconnected''
               \<and> \<not> list_ex is_PairPhone cs"
    using g a GetOrCreateInstance_no_PairPhone [OF g]
    by (auto simp: ConnectWithPairingCode_def Let_def upd_inst_def)
next
  fix code m' cs
  assume r: "ConnectWithPairingCode lib m instanceID phoneNumber = (Inr code, m', cs)"
  let ?m2 = "upd_inst m1 p (\<lambda>i. i\<lparr> Status := ''pairing'' \<rparr>)"
  have cl: "Client (inst_heap ?m2 p) = Client (inst_heap m1 p)"
    by (simp add: upd_inst_def)
  from r g have st: "Status (inst_heap m1 p) \<noteq> ''connected''"
    and sid: "lib_StoreID lib (Client (inst_heap m1 p)) = None"
    by (auto simp: ConnectWithPairingCode_def Let_def split: if_splits)
  from r g st sid obtain calls where
    rp: "request_pairing_code lib ?m2 instanceID p
           (RemoveAll (RemoveAll (TrimPrefix phoneNumber ''+'') CHR '' '') CHR ''-'') calls
         = (Inr code, m', cs)"
    by (auto simp: ConnectWithPairingCode_def Let_def split: if_splits option.splits)
  from request_pairing_code_returns [OF rp] cl
  have "lib_IsConnected_after lib (Client (inst_heap m1 p))"
    and "list_ex is_PairPhone cs" and "PairingCode (inst_heap m' p) = code"
    by auto
  with st sid show "Status (inst_heap m1 p) \<noteq> ''connected''"
    "lib_StoreID lib (Client (inst_heap m1 p)) = None"
    "lib_IsConnected_after lib (Client (inst_heap m1 p))"
    "list_ex is_PairPhone cs"
    "PairingCode (inst_heap m' p) = code"
    by simp_all
qed

theorem ConnectWithPairingCode_guards_witness:
  "GetOrCreateInstance sample_Lib (sample_Manager ''connected'') ''acct1''
     = (Inr 0, sample_Manager ''connected'', [])
   \<and> ConnectWithPairingCode sample_Lib (sample_Manager ''connected'') ''acct1'' ''+55 11 99999-9999''
     = (Inl (GoError ''already connected''), sample_Manager ''connected'', [])
   \<and> GetOrCreateInstance sample_Lib (sample_Manager ''qr'') ''acct1''
     = (Inr 0, sample_Manager ''qr'', [])
   \<and> lib_StoreID sample_Lib (Client (inst_heap (sample_Manager ''qr'') 0)) \<noteq> None
   \<and> ConnectWithPairingCode sample_Lib (sample_Manager ''qr'') ''acct1'' ''+55 11 99999-9999''
     = (Inl (GoError ''already has a session, use QR code or disconnect first''),
        sample_Manager ''qr'', [])
   \<and> fst (GetOrCreateInstance dead_Lib empty_Manager ''acct2'') = Inr 0
   \<and> fst (ConnectWithPairingCode dead_Lib empty_Manager ''acct2'' ''+55 11 99999-9999'')
     = Inl (GoError ''failed to establish connection to WhatsApp servers'')
   \<and> ConnectWithPairingCode unpaired_Lib (sample_Manager ''disconnected'') ''acct1''
         ''+55 11 99999-9999''
     = (Inr ''ABCD-1234'',
        (sample_Manager ''pairing'')
          \<lparr> chan_heap := (chan_heap (sample_Manager ''pairing''))
               (0 := \<lparr> queue = [\<lparr> evt_Type = ''pairing_code'', evt_InstanceID = ''acct1'',
                                  evt_Data = DataStrings [(''code'', ''ABCD-1234'')],
                                  evt_Timestamp = 1700000000 \<rparr>],
                       capacity = 100, is_closed = False \<rparr>) \<rparr>,
        [CallIsConnected 1, CallConnect 1, CallSleep 2000, CallIsConnected 1,
         CallPairPhone 1 ''5511999999999''])
   \<and> lib_IsConnected_after unpaired_Lib (Client (inst_heap (sample_Manager ''disconnected'') 0))"
proof -
  have g: "GetOrCreateInstance lib (sample_Manager st) ''acct1''
             = (Inr 0, sample_Manager st, [])" for lib st
    by (simp add: GetOrCreateInstance_def sample_Manager_def)
  have st: "Status (inst_heap (sample_Manager st) 0) = st" for st
    by (simp add: sample_defs)
  have a: "ConnectWithPairingCode sample_Lib (sample_Manager ''connected'') ''acct1''
             ''+55 11 99999-9999''
           = (Inl (GoError ''already connected''), sample_Manager ''connected'', [])"
    using ConnectWithPairingCode_guards
            [OF g [of sample_Lib "''connected''"], of "''+55 11 99999-9999''"]
    by (simp add: st)
  have sid: "lib_StoreID sample_Lib (Client (inst_heap (sample_Manager ''qr'') 0)) \<noteq> None"
    by (simp add: sample_defs)
  have b: "ConnectWithPairingCode sample_Lib (sample_Manager ''qr'') ''acct1''
             ''+55 11 99999-9999''
           = (Inl (GoError ''already has a session, use QR code or disconnect first''),
              sample_Manager ''qr'', [])"
    using ConnectWithPairingCode_guards
            [OF g [of sample_Lib "''qr''"], of "''+55 11 99999-9999''"] sid
    by (simp add: st)
  obtain m1 c1 where g3: "GetOrCreateInstance dead_Lib empty_Manager ''acct2'' = (Inr 0, m1, c1)"
    and i3: "inst_heap m1 0 = new_Instance ''acct2'' 5 4"
    by (simp add: GetOrCreateInstance_def create_new_def register_instance_def sample_defs)
  have h3: "Status (inst_heap m1 0) \<noteq> ''connected''
            \<and> lib_StoreID dead_Lib (Client (inst_heap m1 0)) = None
            \<and> (lib_IsConnected_before dead_Lib (Client (inst_heap m1 0))
                 \<or> lib_Connect dead_Lib (Client (inst_heap m1 0)) = None)
            \<and> \<not> lib_IsConnected_after dead_Lib (Client (inst_heap m1 0))"
    by (simp add: i3 sample_defs)
  have c: "fst (ConnectWithPairingCode dead_Lib empty_Manager ''acct2'' ''+55 11 99999-9999'')
           = Inl (GoError ''failed to establish connection to WhatsApp servers'')"
    using ConnectWithPairingCode_guards [OF g3, of "''+55 11 99999-9999''"] h3
    by auto
  have d: "ConnectWithPairingCode unpaired_Lib (sample_Manager ''disconnected'') ''acct1''
         ''+55 11 99999-9999''
     = (Inr ''ABCD-1234'',
        (sample_Manager ''pairing'')
          \<lparr> chan_heap := (chan_heap (sample_Manager ''pairing''))
               (0 := \<lparr> queue = [\<lparr> evt_Type = ''pairing_code'', evt_InstanceID = ''acct1'',
                                  evt_Data = DataStrings [(''code'', ''ABCD-1234'')],
                                  evt_Timestamp = 1700000000 \<rparr>],
                       capacity = 100, is_closed = False \<rparr>) \<rparr>,
        [CallIsConnected 1, CallConnect 1, CallSleep 2000, CallIsConnected 1,
         CallPairPhone 1 ''5511999999999''])"
    by (simp add: ConnectWithPairingCode_def GetOrCreateInstance_def
          request_pairing_code_def publishEvent_def publish_read_def
          stamp_def subs_of_def upd_inst_def TrimPrefix_def HasPrefix_def RemoveAll_def
          sample_defs Let_def)
  have e: "lib_IsConnected_after unpaired_Lib (Client (inst_heap (sample_Manager ''disconnected'') 0))"
    using ConnectWithPairingCode_guards
            [OF g [of unpaired_Lib "''disconnected''"], of "''+55 11 99999-9999''"] d
    by simp
  show ?thesis using g a sid b g3 c d e by simp
qed

text \<open>
  C9. \<open>Disconnect\<close> on an unknown id returns the not-found error and changes nothing. On
  a known id it disconnects the client and sets the status to \<open>disconnected\<close>; the
  registry map, the mapping, and the client and device handles of the instance stay as
  they were. A \<open>Connect\<close> on the same id right after it finds the same instance and only
  calls \<open>Connect\<close> on the same client: no device or client is created, no pairing is
  started, and when the library connects the same instance is returned.
\<close>

theorem Disconnect_keeps_identity:
  "(instances m instanceID = None \<longrightarrow>
      Disconnect m instanceID =
        (Inl (GoError (''instance '' @ instanceID @ '' not found'')), m, []))
   \<and> (instances m instanceID = Some p \<longrightarrow>
        (\<exists>m'. Disconnect m instanceID = (Inr (), m', [CallDisconnect (Client (inst_heap m p))])
              \<and> m' = m\<lparr> inst_heap := (inst_heap m)(p := (inst_heap m p)\<lparr> Status := ''disconnected'' \<rparr>) \<rparr>
              \<and> instances m' = instances m
              \<and> mapping m' = mapping m
              \<and> Client (inst_heap m' p) = Client (inst_heap m p)
              \<and> Device (inst_heap m' p) = Device (inst_heap m p)
              \<and> (\<exists>r m''. Connect lib m' instanceID
                            = (r, m'', [CallConnect (Client (inst_heap m p))])
                     \<and> (lib_Connect lib (Client (inst_heap m p)) = None \<longrightarrow> r = Inr p)
                     \<and> instances m'' = instances m
                     \<and> mapping m'' = mapping m
                     \<and> Client (inst_heap m'' p) = Client (inst_heap m p)
                     \<and> Device (inst_heap m'' p) = Device (inst_heap m p))))"
  by (auto simp: Disconnect_def Connect_def GetOrCreateInstance_existing upd_inst_def Let_def
           split: option.splits)

theorem Disconnect_keeps_identity_witness:
  "instances empty_Manager ''ghost'' = None
   \<and> Disconnect empty_Manager ''ghost'' =
        (Inl (GoError ''instance ghost not found''), empty_Manager, [])
   \<and> instances (sample_Manager ''connected'') ''acct1'' = Some 0
   \<and> snd (snd (Disconnect (sample_Manager ''connected'') ''acct1'')) = [CallDisconnect 1]
   \<and> Status (inst_heap (fst (snd (Disconnect (sample_Manager ''connected'') ''acct1''))) 0)
        = ''disconnected''
   \<and> lib_Connect sample_Lib (Client (inst_heap (sample_Manager ''connected'') 0)) = None
   \<and> Connect sample_Lib (fst (snd (Disconnect (sample_Manager ''connected'') ''acct1''))) ''acct1''
        = (Inr 0,
           upd_inst (sample_Manager ''connected'') 0 (\<lambda>i. i\<lparr> Status := ''connecting'' \<rparr>),
           [CallConnect 1])"
  using Disconnect_keeps_identity [of empty_Manager "''ghost''" 0 sample_Lib]
        Disconnect_keeps_identity [of "sample_Manager ''connected''" "''acct1''" 0 sample_Lib]
  by (auto simp: sample_Manager_def sample_Lib_def sample_Instance_def
        new_Instance_def empty_Manager_def Disconnect_def Connect_def GetOrCreateInstance_def
        upd_inst_def Let_def)

text \<open>
  C10. When the library's logout fails on a registered id, \<open>Logout\<close> returns the wrapped
  error, the manager is exactly as before (the instance is still registered, with its
  status, handles and mapping entry), and the only call made is the logout itself: no
  disconnect.
\<close>

theorem Logout_failure_atomic:
  "instances m instanceID = Some p \<Longrightarrow>
   lib_Logout lib (Client (inst_heap m p)) = Some err \<Longrightarrow>
   Logout lib m instanceID =
     (Inl (GoError (''failed to logout: '' @ err)), m, [CallLogout (Client (inst_heap m p))])"
  by (simp add: Logout_def Let_def)

theorem Logout_failure_atomic_witness:
  "instances (sample_Manager ''connected'') ''acct1'' = Some 0
   \<and> lib_Logout failing_Lib (Client (inst_heap (sample_Manager ''connected'') 0))
       = Some ''websocket not connected''
   \<and> Logout failing_Lib (sample_Manager ''connected'') ''acct1'' =
       (Inl (GoError ''failed to logout: websocket not connected''),
        sample_Manager ''connected'', [CallLogout 1])"
  using Logout_failure_atomic
          [of "sample_Manager ''connected''" "''acct1''" 0 failing_Lib "''websocket not connected''"]
  by (simp add: sample_Manager_def failing_Lib_def sample_Lib_def sample_Instance_def
        new_Instance_def)


section \<open>Properties of the event bus\<close>

lemma send_all_frame:
  "send_all m evt chs = Inr m' \<Longrightarrow> m' = m\<lparr> chan_heap := chan_heap m' \<rparr>"
proof (induction chs arbitrary: m)
  case Nil
  then show ?case by simp
next
  case (Cons ch chs)
  show ?case
  proof (cases "length (queue (chan_heap m ch)) < capacity (chan_heap m ch)")
    case True
    let ?m1 = "m\<lparr> chan_heap := (chan_heap m)
                 (ch := (chan_heap m ch)\<lparr> queue := queue (chan_heap m ch) @ [evt] \<rparr>) \<rparr>"
    from Cons.prems True have "send_all ?m1 evt chs = Inr m'"
      by (simp add: Let_def split: if_splits)
    from Cons.IH [OF this] have "m' = ?m1\<lparr> chan_heap := chan_heap m' \<rparr>" .
    then show ?thesis by simp
  next
    case False
    from Cons.prems False have "send_all m evt chs = Inr m'"
      by (simp add: Let_def split: if_splits)
    from Cons.IH [OF this] show ?thesis .
  qed
qed

lemma send_all_returns:
  "\<forall>ch \<in> set chs. \<not> is_closed (chan_heap m ch) \<Longrightarrow> \<exists>m'. send_all m evt chs = Inr m'"
  by (induction chs arbitrary: m) (auto simp: Let_def)

lemma send_all_heap:
  "distinct chs \<Longrightarrow> send_all m evt chs = Inr m' \<Longrightarrow>
   chan_heap m' ch =
     (if ch \<in> set chs \<and> length (queue (chan_heap m ch)) < capacity (chan_heap m ch)
      then (chan_heap m ch)\<lparr> queue := queue (chan_heap m ch) @ [evt] \<rparr>
      else chan_heap m ch)"
proof (induction chs arbitrary: m)
  case Nil
  then show ?case by simp
next
  case (Cons c cs)
  have d: "distinct cs" and nin: "c \<notin> set cs" using Cons.prems(1) by auto
  show ?case
  proof (cases "length (queue (chan_heap m c)) < capacity (chan_heap m c)")
    case True
    let ?m1 = "m\<lparr> chan_heap := (chan_heap m)
                 (c := (chan_heap m c)\<lparr> queue := queue (chan_heap m c) @ [evt] \<rparr>) \<rparr>"
    from Cons.prems(2) True have "send_all ?m1 evt cs = Inr m'"
      by (simp add: Let_def split: if_splits)
    from Cons.IH [OF d this] show ?thesis
      using nin True by (cases "ch = c") auto
  next
    case False
    from Cons.prems(2) False have "send_all m evt cs = Inr m'"
      by (simp add: Let_def split: if_splits)
    from Cons.IH [OF d this] show ?thesis
      using nin False by (cases "ch = c") auto
  qed
qed

text \<open>
  A call of \<open>publishEvent\<close> that no other goroutine interrupts, in a state where the
  channels registered for the event's instance id are open and pairwise different:
  it returns without a panic; every registered channel with room gets the time-stamped
  event appended to its buffer, every full channel and every channel registered
  elsewhere keeps its buffer, nothing but channel buffers changes, and with no
  subscriber the manager is unchanged.
\<close>

lemma publishEvent_uninterrupted:
  assumes "subs_open m (evt_InstanceID evt)"
  shows "\<exists>m'. publishEvent now m evt = Inr m'
            \<and> m' = m\<lparr> chan_heap := chan_heap m' \<rparr>
            \<and> (\<forall>ch. chan_heap m' ch =
                  (if ch \<in> set (subs_of m (evt_InstanceID evt))
                      \<and> length (queue (chan_heap m ch)) < capacity (chan_heap m ch)
                   then (chan_heap m ch)\<lparr> queue := queue (chan_heap m ch) @ [stamp now evt] \<rparr>
                   else chan_heap m ch))
            \<and> (subs_of m (evt_InstanceID evt) = [] \<longrightarrow> m' = m)"
proof -
  have id: "evt_InstanceID (stamp now evt) = evt_InstanceID evt"
    by (simp add: stamp_def)
  have d: "distinct (subs_of m (evt_InstanceID evt))"
    and op: "\<forall>ch \<in> set (subs_of m (evt_InstanceID evt)). \<not> is_closed (chan_heap m ch)"
    using assms by (auto simp: subs_open_def list_all_iff)
  from send_all_returns [OF op] obtain m'
    where s: "send_all m (stamp now evt) (subs_of m (evt_InstanceID evt)) = Inr m'"
    by blast
  have p: "publishEvent now m evt = Inr m'"
    using s by (simp add: publishEvent_def publish_read_def Let_def id)
  have e: "subs_of m (evt_InstanceID evt) = [] \<longrightarrow> m' = m"
    using s by auto
  show ?thesis
    using p send_all_frame [OF s] send_all_heap [OF d s] e by blast
qed

lemma publishEvent_uninterrupted_example:
  "subs_open two_subs ''acct1''
   \<and> publishEvent 1700000000 two_subs (sample_Event ''disconnected'' ''acct1'')
       = Inr (two_subs\<lparr> chan_heap := (chan_heap two_subs)
                (0 := \<lparr> queue = [(sample_Event ''disconnected'' ''acct1'')
                                   \<lparr> evt_Timestamp := 1700000000 \<rparr>],
                        capacity = 100, is_closed = False \<rparr>) \<rparr>)
   \<and> subs_open two_subs ''nobody''
   \<and> subs_of two_subs ''nobody'' = []
   \<and> publishEvent 1700000000 two_subs (sample_Event ''disconnected'' ''nobody'') = Inr two_subs"
proof -
  have s1: "subs_of two_subs ''acct1'' = [0, 1]"
    by (simp add: subs_of_def two_subs_def)
  have s2: "subs_of two_subs ''nobody'' = []"
    by (simp add: subs_of_def two_subs_def)
  have h0: "chan_heap two_subs 0 = \<lparr> queue = [], capacity = 100, is_closed = False \<rparr>"
    by (simp add: two_subs_def)
  have h1: "chan_heap two_subs (Suc 0) =
              \<lparr> queue = replicate 100 (sample_Event ''message'' ''acct1''),
                capacity = 100, is_closed = False \<rparr>"
    by (simp add: two_subs_def)
  have o1: "subs_open two_subs ''acct1''"
    by (simp add: subs_open_def s1 h0 h1)
  have o2: "subs_open two_subs ''nobody''"
    by (simp add: subs_open_def s2)
  have i1: "evt_InstanceID (sample_Event ty i) = i" for ty i
    by (simp add: sample_Event_def)
  have st: "stamp 1700000000 (sample_Event ''disconnected'' ''acct1'')
            = (sample_Event ''disconnected'' ''acct1'')\<lparr> evt_Timestamp := 1700000000 \<rparr>"
    by (simp add: stamp_def sample_Event_def)
  from publishEvent_uninterrupted [of two_subs "sample_Event ''disconnected'' ''acct1''" 1700000000]
       o1
  obtain m' where p: "publishEvent 1700000000 two_subs (sample_Event ''disconnected'' ''acct1'')
                      = Inr m'"
    and fr: "m' = two_subs\<lparr> chan_heap := chan_heap m' \<rparr>"
    and hp: "\<forall>ch. chan_heap m' ch =
                  (if ch \<in> set (subs_of two_subs ''acct1'')
                      \<and> length (queue (chan_heap two_subs ch)) < capacity (chan_heap two_subs ch)
                   then (chan_heap two_subs ch)
                          \<lparr> queue := queue (chan_heap two_subs ch)
                               @ [stamp 1700000000 (sample_Event ''disconnected'' ''acct1'')] \<rparr>
                   else chan_heap two_subs ch)"
    by (auto simp: i1)
  have "chan_heap m' =
          (chan_heap two_subs)
            (0 := \<lparr> queue = [(sample_Event ''disconnected'' ''acct1'')
                               \<lparr> evt_Timestamp := 1700000000 \<rparr>],
                    capacity = 100, is_closed = False \<rparr>)"
  proof
    fix ch
    show "chan_heap m' ch =
            ((chan_heap two_subs)
              (0 := \<lparr> queue = [(sample_Event ''disconnected'' ''acct1'')
                                 \<lparr> evt_Timestamp := 1700000000 \<rparr>],
                      capacity = 100, is_closed = False \<rparr>)) ch"
      using hp [rule_format, of ch] by (auto simp: s1 h0 h1 st)
  qed
  with fr p have a: "publishEvent 1700000000 two_subs (sample_Event ''disconnected'' ''acct1'')
       = Inr (two_subs\<lparr> chan_heap := (chan_heap two_subs)
                (0 := \<lparr> queue = [(sample_Event ''disconnected'' ''acct1'')
                                   \<lparr> evt_Timestamp := 1700000000 \<rparr>],
                        capacity = 100, is_closed = False \<rparr>) \<rparr>)"
    by simp
  have b: "publishEvent 1700000000 two_subs (sample_Event ''disconnected'' ''nobody'') = Inr two_subs"
    using publishEvent_uninterrupted [of two_subs "sample_Event ''disconnected'' ''nobody''" 1700000000]
          o2 s2
    by (auto simp: i1)
  show ?thesis using o1 a o2 s2 b by blast
qed

text \<open>The invariant of the bus: it holds in \<open>NewManager\<close>'s state and gives \<open>subs_open\<close>
  for every id; \<open>Subscribe\<close>, \<open>Unsubscribe\<close> and an uninterrupted \<open>publishEvent\<close>
  each keep it and return without a panic under it.\<close>

lemma bus_ok_empty: "bus_ok empty_Manager"
  by (simp add: bus_ok_def subs_of_def empty_Manager_def)

lemma bus_ok_subs_open: "bus_ok m \<Longrightarrow> subs_open m i"
  by (auto simp: bus_ok_def subs_open_def list_all_iff)

lemma subs_of_Subscribe:
  "subs_of (snd (Subscribe m i)) j = (if j = i then subs_of m i @ [next_chan m] else subs_of m j)"
  by (simp add: Subscribe_def subs_of_def Let_def)

lemma bus_ok_Subscribe:
  assumes "bus_ok m"
  shows "bus_ok (snd (Subscribe m i))"
proof -
  have fresh: "next_chan m \<notin> set (subs_of m j)" for j
    using assms by (auto simp: bus_ok_def)
  have heap: "chan_heap (snd (Subscribe m i)) ch =
                (if ch = next_chan m then \<lparr> queue = [], capacity = 100, is_closed = False \<rparr>
                 else chan_heap m ch)" for ch
    by (simp add: Subscribe_def Let_def)
  have nx: "next_chan (snd (Subscribe m i)) = Suc (next_chan m)"
    by (simp add: Subscribe_def Let_def)
  show ?thesis
    unfolding bus_ok_def subs_of_Subscribe heap nx
    using assms fresh by (auto simp: bus_ok_def less_Suc_eq)
qed

lemma first_index_None: "first_index ch subs = None \<longleftrightarrow> ch \<notin> set subs"
  by (induction subs) (auto split: option.splits)

lemma first_index_Some:
  "first_index ch subs = Some i \<Longrightarrow>
   ch \<in> set subs \<and> take i subs @ drop (Suc i) subs = remove1 ch subs"
  by (induction subs arbitrary: i) (auto split: option.splits if_splits)

lemma bus_ok_Unsubscribe:
  assumes "bus_ok m"
  shows "\<exists>m'. Unsubscribe m i ch = Inr m' \<and> bus_ok m'"
proof (cases "first_index ch (subs_of m i)")
  case None
  then show ?thesis using assms by (simp add: Unsubscribe_def Let_def)
next
  case (Some k)
  from first_index_Some [OF Some]
  have mem: "ch \<in> set (subs_of m i)"
    and rm: "take k (subs_of m i) @ drop (Suc k) (subs_of m i) = remove1 ch (subs_of m i)"
    by auto
  have op: "\<not> is_closed (chan_heap m ch)"
    using assms mem by (auto simp: bus_ok_def)
  let ?m' = "m\<lparr> eventSubs := (eventSubs m)(i \<mapsto> remove1 ch (subs_of m i)),
                 chan_heap := (chan_heap m)(ch := (chan_heap m ch)\<lparr> is_closed := True \<rparr>) \<rparr>"
  have u: "Unsubscribe m i ch = Inr ?m'"
    using Some rm op by (simp add: Unsubscribe_def Let_def close_chan_def)
  have subs: "subs_of ?m' j = (if j = i then remove1 ch (subs_of m i) else subs_of m j)" for j
    by (simp add: subs_of_def)
  have d: "distinct (subs_of m j)" for j
    using assms by (simp add: bus_ok_def)
  have other: "j \<noteq> i \<Longrightarrow> ch \<notin> set (subs_of m j)" for j
    using assms mem by (auto simp: bus_ok_def)
  have gone: "ch \<notin> set (remove1 ch (subs_of m i))"
    using d [of i] by simp
  have old: "x \<in> set (subs_of m j) \<Longrightarrow>
               x < next_chan m \<and> \<not> is_closed (chan_heap m x)
               \<and> capacity (chan_heap m x) = 100
               \<and> (\<forall>j'. j' \<noteq> j \<longrightarrow> x \<notin> set (subs_of m j'))" for x j
    using assms by (auto simp: bus_ok_def)
  have rs: "set (remove1 ch (subs_of m i)) = set (subs_of m i) - {ch}"
    using d [of i] by (simp add: set_remove1_eq)
  have dd: "distinct (subs_of ?m' j)" for j
    using d by (simp add: subs)
  have pt: "x < next_chan ?m'
            \<and> \<not> is_closed (chan_heap ?m' x) \<and> capacity (chan_heap ?m' x) = 100
            \<and> (\<forall>j'. j' \<noteq> j \<longrightarrow> x \<notin> set (subs_of ?m' j'))"
    if x: "x \<in> set (subs_of ?m' j)" for x j
  proof -
    have xj: "x \<in> set (subs_of m j)"
      using x rs by (auto simp: subs split: if_splits)
    have xne: "x \<noteq> ch"
      using x rs other by (auto simp: subs split: if_splits)
    show ?thesis
      using old [OF xj] xne rs by (auto simp: subs)
  qed
  have "bus_ok ?m'"
    unfolding bus_ok_def using dd pt by blast
  with u show ?thesis by blast
qed

lemma bus_ok_publishEvent:
  assumes "bus_ok m"
  shows "\<exists>m'. publishEvent now m evt = Inr m' \<and> bus_ok m'"
proof -
  let ?i = "evt_InstanceID (stamp now evt)"
  have d: "distinct (subs_of m ?i)"
    and op: "\<forall>ch \<in> set (subs_of m ?i). \<not> is_closed (chan_heap m ch)"
    using assms by (auto simp: bus_ok_def)
  from send_all_returns [OF op] obtain m'
    where s: "send_all m (stamp now evt) (subs_of m ?i) = Inr m'"
    by blast
  have p: "publishEvent now m evt = Inr m'"
    using s by (simp add: publishEvent_def publish_read_def Let_def)
  have fr: "m' = m\<lparr> chan_heap := chan_heap m' \<rparr>"
    using send_all_frame [OF s] .
  have subs: "subs_of m' j = subs_of m j" for j
    by (subst fr) (simp add: subs_of_def)
  have nx: "next_chan m' = next_chan m"
    by (subst fr) simp
  have h: "is_closed (chan_heap m' ch) = is_closed (chan_heap m ch)
           \<and> capacity (chan_heap m' ch) = capacity (chan_heap m ch)" for ch
    using send_all_heap [OF d s, of ch] by simp
  have "bus_ok m'"
    using assms unfolding bus_ok_def subs nx by (simp add: h)
  with p show ?thesis by blast
qed


text \<open>
  C5. One subscriber of \<open>acct1\<close> (the channel at address 0, open and empty). A
  \<open>publishEvent\<close> for \<open>acct1\<close> reads the subscriber slice, which holds that channel,
  and releases the lock. The websocket handler of the subscriber returns and its deferred
  \<open>Unsubscribe("acct1", ch)\<close> runs: the channel leaves the registry and is closed. (The
  slice that the publisher holds still has the channel: removing the only element moves
  nothing in its backing array.) The publisher's loop then sends on the closed channel and
  panics, so this call of \<open>publishEvent\<close> does not return. Run without the
  interruption, the same call in the same state returns and delivers the event.
\<close>

theorem publishEvent_send_after_close:
  "subs_open one_subscriber ''acct1''
   \<and> publish_read 1700000000 one_subscriber (sample_Event ''message'' ''acct1'')
       = ((sample_Event ''message'' ''acct1'')\<lparr> evt_Timestamp := 1700000000 \<rparr>, [0])
   \<and> Unsubscribe one_subscriber ''acct1'' 0
       = Inr (one_subscriber
               \<lparr> eventSubs := [''acct1'' \<mapsto> []],
                 chan_heap := (chan_heap one_subscriber)
                   (0 := \<lparr> queue = [], capacity = 100, is_closed = True \<rparr>) \<rparr>)
   \<and> send_all
         (one_subscriber
            \<lparr> eventSubs := [''acct1'' \<mapsto> []],
              chan_heap := (chan_heap one_subscriber)
                (0 := \<lparr> queue = [], capacity = 100, is_closed = True \<rparr>) \<rparr>)
         ((sample_Event ''message'' ''acct1'')\<lparr> evt_Timestamp := 1700000000 \<rparr>) [0]
       = Inl (GoPanic ''send on closed channel'')
   \<and> publishEvent 1700000000 one_subscriber (sample_Event ''message'' ''acct1'')
       = Inr (one_subscriber
               \<lparr> chan_heap := (chan_heap one_subscriber)
                   (0 := \<lparr> queue = [(sample_Event ''message'' ''acct1'')
                                      \<lparr> evt_Timestamp := 1700000000 \<rparr>],
                           capacity = 100, is_closed = False \<rparr>) \<rparr>)"
  by (simp add: one_subscriber_def Subscribe_def Unsubscribe_def close_chan_def
        publishEvent_def publish_read_def stamp_def subs_of_def subs_open_def
        sample_Event_def empty_Manager_def Let_def)


section \<open>Properties of the event handler\<close>

lemma publish_from_handler_inst_heap:
  "inst_heap (fst (snd (publish_from_handler lib m evt))) = inst_heap m"
  by (auto simp: publish_from_handler_def split: sum.splits dest: publishEvent_inst_heap)

text \<open>
  An instance showing a QR code and holding a pairing code: after the \<open>Disconnected\<close>
  event its QR payload and pairing code are still there, and after the \<open>Connected\<close>
  event the pairing code is still there.
\<close>

theorem handler_keeps_codes_counterexample:
  "QRCode (inst_heap (fst (snd (handleEvent sample_Lib (sample_Manager ''qr'') 0 EvDisconnected))) 0)
     = ''2@AbCd''
   \<and> QRCodeBase64
       (inst_heap (fst (snd (handleEvent sample_Lib (sample_Manager ''qr'') 0 EvDisconnected))) 0)
     = ''data:image/png;base64,iVBORw0KGgo=''
   \<and> PairingCode
       (inst_heap (fst (snd (handleEvent sample_Lib (sample_Manager ''qr'') 0 EvDisconnected))) 0)
     = ''ABCD-1234''
   \<and> Status
       (inst_heap (fst (snd (handleEvent sample_Lib (sample_Manager ''qr'') 0 EvDisconnected))) 0)
     = ''disconnected''
   \<and> PairingCode
       (inst_heap (fst (snd (handleEvent sample_Lib (sample_Manager ''pairing'') 0 EvConnected))) 0)
     = ''ABCD-1234''
   \<and> Status
       (inst_heap (fst (snd (handleEvent sample_Lib (sample_Manager ''pairing'') 0 EvConnected))) 0)
     = ''connected''"
  by (simp add: publish_from_handler_inst_heap upd_inst_def Let_def sample_defs
           split: option.splits)

text \<open>
  C8 (as amended). The \<open>Connected\<close> event sets the status to \<open>connected\<close> and clears
  \<open>QRCode\<close> and \<open>QRCodeBase64\<close>; it leaves \<open>PairingCode\<close> as it was. The
  \<open>Disconnected\<close> event sets the status to \<open>disconnected\<close> and leaves \<open>QRCode\<close>,
  \<open>QRCodeBase64\<close> and \<open>PairingCode\<close> as they were.
\<close>

theorem handler_connected_disconnected_fields:
  "Status (inst_heap (fst (snd (handleEvent lib m p EvConnected))) p) = ''connected''
   \<and> QRCode (inst_heap (fst (snd (handleEvent lib m p EvConnected))) p) = []
   \<and> QRCodeBase64 (inst_heap (fst (snd (handleEvent lib m p EvConnected))) p) = []
   \<and> PairingCode (inst_heap (fst (snd (handleEvent lib m p EvConnected))) p)
       = PairingCode (inst_heap m p)
   \<and> Status (inst_heap (fst (snd (handleEvent lib m p EvDisconnected))) p) = ''disconnected''
   \<and> QRCode (inst_heap (fst (snd (handleEvent lib m p EvDisconnected))) p)
       = QRCode (inst_heap m p)
   \<and> QRCodeBase64 (inst_heap (fst (snd (handleEvent lib m p EvDisconnected))) p)
       = QRCodeBase64 (inst_heap m p)
   \<and> PairingCode (inst_heap (fst (snd (handleEvent lib m p EvDisconnected))) p)
       = PairingCode (inst_heap m p)"
  by (simp add: publish_from_handler_inst_heap upd_inst_def Let_def split: option.splits)


section \<open>Properties of the outbound operations\<close>

text \<open>Seven of the eight send operations test the status first: on an instance that is
  not connected they return the not-connected error and call nothing.\<close>

lemma send_ops_guarded:
  assumes "instances m instanceID = Some p" and "Status (inst_heap m p) \<noteq> ''connected''"
  shows "SendTextMessage lib m instanceID to text =
           (Inl (GoError (''instance not connected (status: '' @ Status (inst_heap m p) @ '')'')), [])"
    and "SendPresence lib m instanceID to presence = (Inl (GoError ''instance not connected''), [])"
    and "SendLocationMessage lib m instanceID to lat long descr =
           (Inl (GoError ''instance not connected''), [])"
    and "SendPollMessage lib m instanceID to question options n =
           (Inl (GoError ''instance not connected''), [])"
    and "EditMessage lib m instanceID chatID messageID newText =
           (Inl (GoError ''instance not connected''), [])"
    and "ReactToMessage lib m instanceID chatID messageID reaction =
           (Inl (GoError ''instance not connected''), [])"
    and "DeleteMessage lib m instanceID chatID messageID forEveryone =
           (Inl (GoError ''instance not connected''), [])"
  using assms
  by (simp_all add: SendTextMessage_def SendPresence_def SendLocationMessage_def
        SendPollMessage_def EditMessage_def ReactToMessage_def DeleteMessage_def
        GetInstance_def Let_def)

text \<open>\<open>SendMediaMessage\<close> has no such test: whatever the status, its first action on a
  registered instance is the \<open>IsOnWhatsApp\<close> query.\<close>

lemma SendMediaMessage_always_resolves:
  "instances m instanceID = Some p \<Longrightarrow>
   \<exists>r cs. SendMediaMessage lib m instanceID to mediaUrl caption mediaType =
            (r, CallIsOnWhatsApp (Client (inst_heap m p)) [TrimPrefix to ''+''] # cs)"
  by (auto simp: SendMediaMessage_def GetInstance_def Let_def
           split: sum.splits list.splits prod.splits option.splits)

text \<open>
  C2. On the instance \<open>acct1\<close> with status \<open>disconnected\<close>, \<open>SendTextMessage\<close> fails
  with the not-connected error and makes no call, as the claim says; \<open>SendMediaMessage\<close>
  with the same instance and recipient resolves the recipient, uploads the media and
  dispatches the message.
\<close>

theorem SendMediaMessage_unguarded:
  "instances (sample_Manager ''disconnected'') ''acct1'' = Some 0
   \<and> Status (inst_heap (sample_Manager ''disconnected'') 0) = ''disconnected''
   \<and> SendMediaMessage sample_Lib (sample_Manager ''disconnected'') ''acct1'' ''+5511999999999''
        ''data:image/gif;base64,R0lGODlh'' ''hi'' ''image''
     = (Inr ''3EB0A1B2C3'',
        [CallIsOnWhatsApp 1 [''5511999999999''],
         CallUpload 1 ''GIF89a'' MediaImage,
         CallSendMessage 1 sample_JID
           (ImageMessage ''hi''
              \<lparr> up_URL = ''https://mmg.whatsapp.net/f'', up_DirectPath = ''/f'',
                up_MediaKey = ''k'', up_FileEncSHA256 = ''e'', up_FileSHA256 = ''h'' \<rparr>
              ''image/gif'' 6),
         CallGo [CallSendChatPresence 1 sample_JID ChatPresencePaused ChatPresenceMediaText]])
   \<and> SendTextMessage sample_Lib (sample_Manager ''disconnected'') ''acct1'' ''+5511999999999'' ''hi''
     = (Inl (GoError ''instance not connected (status: disconnected)''), [])"
  by (simp add: SendMediaMessage_def SendTextMessage_def GetInstance_def fetch_media_def
        upload_kind_def media_message_def SplitN2_def HasPrefix_def TrimPrefix_def
        Let_def sample_defs)

end
